theory Spec2Isabelle
  imports Complex_Main
begin

section \<open>The graph store\<close>

text \<open>
  The services of \<^verbatim>\<open>src/app/services\<close> keep all their state in one graph database and
  change it through Cypher queries run inside managed transactions. The graph is modelled
  as a record of finite maps: nodes are keyed by their id property (\<^verbatim>\<open>user_id\<close>,
  \<^verbatim>\<open>post_id\<close>), relationships by their end points. A node property that Cypher reads as
  \<^verbatim>\<open>null\<close> (absent) is \<open>None\<close>.

  Modelling decisions, each visible in the definitions below:
  \<^item> ids (UUID4) and timestamps are natural numbers; the clock value
    (\<^verbatim>\<open>datetime.now(UTC)\<close>) and the fresh match id (\<^verbatim>\<open>uuid4()\<close>) are parameters;
  \<^item> there is one node per id and at most one relationship of a type between an ordered
    pair of nodes (for \<^verbatim>\<open>DATING_ACTION\<close>: per action type). Every writer in the services
    keeps this: \<^verbatim>\<open>MERGE\<close> for \<^verbatim>\<open>BLOCKS\<close>, \<^verbatim>\<open>LIKED\<close>, \<^verbatim>\<open>DATING_ACTION\<close>,
    \<^verbatim>\<open>DATING_MATCH\<close>, and \<^verbatim>\<open>CREATE\<close> guarded by a null check for \<^verbatim>\<open>FOLLOWS\<close> and
    \<^verbatim>\<open>REQUESTED_TO_FOLLOW\<close>;
  \<^item> counters are unbounded integers, scores and coordinates are reals;
  \<^item> every query is taken with the meaning of its clauses; whether the database parses it
    is outside the model;
  \<^item> a record constructor (\<^verbatim>\<open>Record(**row)\<close>) is modelled by the names of the keyword
    arguments it is given and requires, by nullness, and by the kind of the temporal
    values: a required field that is not passed, \<^verbatim>\<open>null\<close> in a field that is not
    nullable, or a value of the driver's own temporal types in a \<^verbatim>\<open>datetime\<close> or
    \<^verbatim>\<open>date\<close> field is a validation error. A node passed for a \<^verbatim>\<open>User\<close> field is
    read as the mapping of its properties.
\<close>

type_synonym uid = nat
type_synonym pid = nat
type_synonym timestamp = nat

text \<open>
  A temporal property as the driver hands it back. A query parameter that was a string in
  ISO format (\<^verbatim>\<open>datetime.now(UTC).isoformat()\<close>) is stored and returned as that string,
  which a \<^verbatim>\<open>datetime\<close> or \<^verbatim>\<open>date\<close> field parses. A parameter that was a
  \<^verbatim>\<open>datetime\<close> object (\<^verbatim>\<open>datetime.now(UTC)\<close>), or a property made by Cypher's
  \<^verbatim>\<open>date(...)\<close>, is stored as a temporal value of the database and returned as
  \<^verbatim>\<open>neo4j.time.DateTime\<close> or \<^verbatim>\<open>neo4j.time.Date\<close>, which those fields reject.
\<close>

datatype 'a temporal = Iso 'a | Neo 'a

record user_node =
  is_private :: "bool option"
  bio :: "string option"
  profile_picture_s3_key :: "string option"
  follower_count :: "int option"
  following_count :: "int option"
  latitude :: "real option"
  longitude :: "real option"

record post_node =
  like_count :: "int option"

datatype InteractionType =
  LIKE | COMMENT | SHARE | FOLLOW | BLOCK | REPORT
  | SWIPE_LEFT | SWIPE_RIGHT | SUPER_LIKE | MATCH | MESSAGE

datatype FollowRequestStatus = PENDING | ACCEPTED | DENIED

record follows_edge =
  f_created_at :: "timestamp temporal"
  f_request_accepted_at :: "timestamp temporal option"

record request_edge =
  r_created_at :: "timestamp temporal"
  r_status :: FollowRequestStatus

record match_edge =
  m_match_id :: nat
  m_created_at :: timestamp
  m_updated_at :: timestamp
  m_compatibility_score :: real

record view_edge =
  v_view_count :: int
  v_created_at :: timestamp
  v_updated_at :: timestamp

record graph =
  users :: "uid \<rightharpoonup> user_node"
  posts :: "pid \<rightharpoonup> post_node"
  follows :: "uid \<times> uid \<rightharpoonup> follows_edge"
  requests :: "uid \<times> uid \<rightharpoonup> request_edge"
  blocks :: "uid \<times> uid \<rightharpoonup> timestamp"
  liked :: "uid \<times> pid \<rightharpoonup> timestamp temporal"
  dating_actions :: "uid \<times> uid \<times> InteractionType \<rightharpoonup> timestamp"
  dating_matches :: "uid \<times> uid \<rightharpoonup> match_edge"
  profile_views :: "uid \<times> uid \<rightharpoonup> view_edge"

section \<open>Exceptions, strings and the driver\<close>

text \<open>
  Every exception class a modelled path can raise is a constructor carrying the message.
  \<open>ValidationError\<close> is the error of the record constructors (pydantic); it is a subclass
  of Python's \<^verbatim>\<open>ValueError\<close>, \<open>KeyError\<close> is not.
\<close>

datatype exn =
  BlockError string
  | BlockNotFoundError string
  | FollowError string
  | FollowNotFoundError string
  | FollowCreationError string
  | ActionRecordingError string
  | MatchCreationError string
  | ValueError string
  | KeyError string
  | ValidationError string

fun str_of :: "exn \<Rightarrow> string" where
  "str_of (BlockError m) = m"
| "str_of (BlockNotFoundError m) = m"
| "str_of (FollowError m) = m"
| "str_of (FollowNotFoundError m) = m"
| "str_of (FollowCreationError m) = m"
| "str_of (ActionRecordingError m) = m"
| "str_of (MatchCreationError m) = m"
| "str_of (ValueError m) = m"
| "str_of (KeyError k) = [CHR 0x27] @ k @ [CHR 0x27]"
| "str_of (ValidationError m) = m"

fun is_ValueError :: "exn \<Rightarrow> bool" where
  "is_ValueError (ValueError m) = True"
| "is_ValueError (ValidationError m) = True"
| "is_ValueError e = False"

text \<open>Python's \<^verbatim>\<open>str.lower()\<close>, on the ASCII letters the messages are made of.\<close>

definition lower_char :: "char \<Rightarrow> char" where
  "lower_char c =
     (case map_of (zip ''ABCDEFGHIJKLMNOPQRSTUVWXYZ'' ''abcdefghijklmnopqrstuvwxyz'') c of
        Some l \<Rightarrow> l
      | None \<Rightarrow> c)"

definition lower :: "string \<Rightarrow> string" where
  "lower s = map lower_char s"

fun starts_with :: "string \<Rightarrow> string \<Rightarrow> bool" where
  "starts_with [] s = True"
| "starts_with (p # ps) [] = False"
| "starts_with (p # ps) (c # cs) = (p = c \<and> starts_with ps cs)"

text \<open>Python's \<^verbatim>\<open>sub in s\<close> on strings.\<close>

fun contains :: "string \<Rightarrow> string \<Rightarrow> bool" where
  "contains sub [] = (sub = [])"
| "contains sub (c # cs) = (starts_with sub (c # cs) \<or> contains sub cs)"

text \<open>
  A value in a result row, a map literal of a \<^verbatim>\<open>RETURN\<close> clause as the list of its
  entries, and a result record as the list of its columns. \<open>record_get\<close> is
  \<^verbatim>\<open>record["key"]\<close>, which raises \<^verbatim>\<open>KeyError\<close> for a column the query did not return;
  \<open>single\<close> is \<^verbatim>\<open>result.single()\<close>.
\<close>

datatype cval =
  VNull
  | VBool bool
  | VUid uid
  | VStr string
  | VNum real
  | VTime timestamp
  | VNeoTime timestamp
  | VAction InteractionType
  | VNode user_node
  | VFollows follows_edge
  | VRequest request_edge

type_synonym cmap = "(string \<times> cval) list"

text \<open>
  A stored time stamp as a value of a row: \<open>VTime\<close> is the ISO string, \<open>VNeoTime\<close>
  the \<^verbatim>\<open>neo4j.time.DateTime\<close>.
\<close>

definition time_val :: "timestamp temporal \<Rightarrow> cval" where
  "time_val t = (case t of Iso x \<Rightarrow> VTime x | Neo x \<Rightarrow> VNeoTime x)"

text \<open>What a \<^verbatim>\<open>datetime\<close> or \<^verbatim>\<open>date\<close> field makes of a stored temporal value.\<close>

definition parse_temporal :: "'a temporal \<Rightarrow> 'a option" where
  "parse_temporal t = (case t of Iso x \<Rightarrow> Some x | Neo x \<Rightarrow> None)"

text \<open>
  \<^verbatim>\<open>User(**node)\<close>: \<^verbatim>\<open>is_private\<close>, \<^verbatim>\<open>bio\<close> and \<^verbatim>\<open>profile_picture_s3_key\<close> have
  no default, so the node must have these properties; the counters and the location have
  defaults. The remaining required properties (ids, names, email, the ISO string
  \<^verbatim>\<open>created_at\<close>) are set when the user is created and are not part of \<open>user_node\<close>.
\<close>

definition User_ok :: "user_node \<Rightarrow> bool" where
  "User_ok n = (is_private n \<noteq> None \<and> bio n \<noteq> None \<and> profile_picture_s3_key n \<noteq> None)"

definition record_get :: "(string \<times> 'a) list \<Rightarrow> string \<Rightarrow> exn + 'a" where
  "record_get r k = (case map_of r k of None \<Rightarrow> Inl (KeyError k) | Some v \<Rightarrow> Inr v)"

fun single :: "'a list \<Rightarrow> 'a option" where
  "single [] = None"
| "single (x # xs) = Some x"

text \<open>
  \<^verbatim>\<open>session.execute_write(f, ...)\<close>: the transaction function runs on the graph; when
  it raises, the transaction is rolled back and the exception propagates, otherwise its
  writes are committed.
\<close>

definition execute_write ::
  "(graph \<Rightarrow> exn + ('a \<times> graph)) \<Rightarrow> graph \<Rightarrow> (exn + 'a) \<times> graph" where
  "execute_write f g = (case f g of Inl e \<Rightarrow> (Inl e, g) | Inr (r, g') \<Rightarrow> (Inr r, g'))"

definition coalesce :: "'a option \<Rightarrow> 'a \<Rightarrow> 'a" where
  "coalesce v d = (case v of None \<Rightarrow> d | Some x \<Rightarrow> x)"

section \<open>Blocks (services/block.py)\<close>

record CreateBlockRecord =
  cb_success :: bool
  cb_blocked_user_id :: uid
  cb_removed_forward_follow :: bool
  cb_removed_reverse_follow :: bool

text \<open>
  \<^verbatim>\<open>CreateBlockRecord(**kw)\<close>: the four fields of the schema are required; keyword
  arguments that name no field are ignored.
\<close>

definition CreateBlockRecord_new :: "cmap \<Rightarrow> exn + CreateBlockRecord" where
  "CreateBlockRecord_new kw =
     (case (map_of kw ''success'', map_of kw ''blocked_user_id'',
            map_of kw ''removed_forward_follow'', map_of kw ''removed_reverse_follow'') of
        (Some (VBool s), Some (VUid b), Some (VBool f), Some (VBool r)) \<Rightarrow>
          Inr \<lparr>cb_success = s, cb_blocked_user_id = b,
               cb_removed_forward_follow = f, cb_removed_reverse_follow = r\<rparr>
      | _ \<Rightarrow> Inl (ValidationError ''1 validation error for CreateBlockRecord''))"

text \<open>
  The query of \<^verbatim>\<open>_create_block_relationship\<close>. Both users are matched and must differ;
  the follow edges in both directions are deleted, the four cached counters are set with
  \<^verbatim>\<open>coalesce(c, 1) - 1\<close> where the edge existed, the \<^verbatim>\<open>BLOCKS\<close> edge is merged
  (its \<^verbatim>\<open>created_at\<close> set only on creation), and one row is returned under the column
  \<^verbatim>\<open>result\<close>.
\<close>

definition create_block_query ::
  "graph \<Rightarrow> uid \<Rightarrow> uid \<Rightarrow> timestamp \<Rightarrow> (string \<times> cmap) list list \<times> graph" where
  "create_block_query g origin_id target_id current_time =
     (case (users g origin_id, users g target_id) of
        (Some blocker, Some blockee) \<Rightarrow>
          if origin_id = target_id then ([], g)
          else
            let f1_exists = (follows g (origin_id, target_id) \<noteq> None);
                f2_exists = (follows g (target_id, origin_id) \<noteq> None);
                blocker' = blocker\<lparr>
                  following_count :=
                    (if f1_exists then Some (coalesce (following_count blocker) 1 - 1)
                     else following_count blocker),
                  follower_count :=
                    (if f2_exists then Some (coalesce (follower_count blocker) 1 - 1)
                     else follower_count blocker)\<rparr>;
                blockee' = blockee\<lparr>
                  following_count :=
                    (if f2_exists then Some (coalesce (following_count blockee) 1 - 1)
                     else following_count blockee),
                  follower_count :=
                    (if f1_exists then Some (coalesce (follower_count blockee) 1 - 1)
                     else follower_count blockee)\<rparr>;
                g' = g\<lparr>
                  users := (users g)(origin_id \<mapsto> blocker', target_id \<mapsto> blockee'),
                  follows := (follows g)((origin_id, target_id) := None,
                                         (target_id, origin_id) := None),
                  blocks :=
                    (case blocks g (origin_id, target_id) of
                       None \<Rightarrow> (blocks g)((origin_id, target_id) \<mapsto> current_time)
                     | Some t \<Rightarrow> blocks g)\<rparr>
            in ([[(''result'',
                   [(''success'', VBool True),
                    (''blocked_user'', VUid target_id),
                    (''removed_forward_follow'', VBool f1_exists),
                    (''removed_reverse_follow'', VBool f2_exists)])]], g')
      | _ \<Rightarrow> ([], g))"

definition create_block_relationship ::
  "graph \<Rightarrow> uid \<Rightarrow> uid \<Rightarrow> timestamp \<Rightarrow> exn + (CreateBlockRecord \<times> graph)" where
  "create_block_relationship tx origin_id target_id current_time =
     (case create_block_query tx origin_id target_id current_time of (result, tx') \<Rightarrow>
        (case single result of
           Some data \<Rightarrow>
             (case record_get data ''result'' of
                Inl e \<Rightarrow> Inl e
              | Inr kw \<Rightarrow>
                  (case CreateBlockRecord_new kw of
                     Inl e \<Rightarrow> Inl e
                   | Inr r \<Rightarrow> Inr (r, tx')))
         | None \<Rightarrow> Inl (ValueError ''Something went wrong when trying to block user'')))"

definition block ::
  "graph \<Rightarrow> uid \<Rightarrow> uid \<Rightarrow> timestamp \<Rightarrow> (exn + CreateBlockRecord) \<times> graph" where
  "block g origin_id target_id current_time =
     (if origin_id = target_id
      then (Inl (BlockError ''Users cannot block themselves''), g)
      else
        (case execute_write
                (\<lambda>tx. create_block_relationship tx origin_id target_id current_time) g of
           (Inl e, g') \<Rightarrow> (Inl (BlockError (''Failed to block user: '' @ str_of e)), g')
         | (Inr r, g') \<Rightarrow> (Inr r, g')))"

record RemoveBlockRecord =
  rb_success :: bool
  rb_blocker_exists :: bool
  rb_blockee_exists :: bool
  rb_blocker :: user_node
  rb_blockee :: user_node

definition RemoveBlockRecord_new :: "cmap \<Rightarrow> exn + RemoveBlockRecord" where
  "RemoveBlockRecord_new kw =
     (case (map_of kw ''success'', map_of kw ''blocker_exists'', map_of kw ''blockee_exists'',
            map_of kw ''blocker'', map_of kw ''blockee'') of
        (Some (VBool s), Some (VBool a), Some (VBool b), Some (VNode x), Some (VNode y)) \<Rightarrow>
          if User_ok x \<and> User_ok y
          then Inr \<lparr>rb_success = s, rb_blocker_exists = a, rb_blockee_exists = b,
                    rb_blocker = x, rb_blockee = y\<rparr>
          else Inl (ValidationError ''validation errors for RemoveBlockRecord'')
      | _ \<Rightarrow> Inl (ValidationError ''validation errors for RemoveBlockRecord''))"

text \<open>
  The query of \<^verbatim>\<open>_remove_block_relationship\<close> starts with three \<^verbatim>\<open>OPTIONAL MATCH\<close>
  clauses, so it yields exactly one row whether or not the users or the edge exist. Its
  \<^verbatim>\<open>RETURN\<close> gives the map no alias: the column is named by the text of the expression.
\<close>

definition remove_block_column :: string where
  "remove_block_column =
     ''{success: true, blocker_exists: blocker_exists, blockee_exists: blockee_exists, blocker: blocker, blockee: blockee}''"

definition node_val :: "user_node option \<Rightarrow> cval" where
  "node_val n = (case n of None \<Rightarrow> VNull | Some u \<Rightarrow> VNode u)"

definition remove_block_query ::
  "graph \<Rightarrow> uid \<Rightarrow> uid \<Rightarrow> (string \<times> cmap) list list \<times> graph" where
  "remove_block_query g origin_id target_id =
     (let blocker = users g origin_id;
          blockee = users g target_id;
          g' = (if blocker \<noteq> None \<and> blockee \<noteq> None
                then g\<lparr>blocks := (blocks g)((origin_id, target_id) := None)\<rparr>
                else g)
      in ([[(remove_block_column,
             [(''success'', VBool True),
              (''blocker_exists'', VBool (blocker \<noteq> None)),
              (''blockee_exists'', VBool (blockee \<noteq> None)),
              (''blocker'', node_val blocker),
              (''blockee'', node_val blockee)])]], g'))"

definition remove_block_relationship ::
  "graph \<Rightarrow> uid \<Rightarrow> uid \<Rightarrow> exn + (RemoveBlockRecord \<times> graph)" where
  "remove_block_relationship tx origin_id target_id =
     (case remove_block_query tx origin_id target_id of (result, tx') \<Rightarrow>
        (case single result of
           Some data \<Rightarrow>
             (case record_get data ''result'' of
                Inl e \<Rightarrow> Inl e
              | Inr kw \<Rightarrow>
                  (case RemoveBlockRecord_new kw of
                     Inl e \<Rightarrow> Inl e
                   | Inr r \<Rightarrow> Inr (r, tx')))
         | None \<Rightarrow> Inl (ValueError ''Block does not exist'')))"

text \<open>
  The handler of \<^verbatim>\<open>unblock\<close>: only a \<^verbatim>\<open>ValueError\<close> is caught; any other exception
  leaves \<^verbatim>\<open>unblock\<close> as it is.
\<close>

definition unblock_handler :: "exn \<Rightarrow> exn" where
  "unblock_handler e =
     (if is_ValueError e
      then (if contains ''not found'' (lower (str_of e))
            then BlockNotFoundError (str_of e)
            else BlockError (''Failed to unblock user: '' @ str_of e))
      else e)"

definition unblock :: "graph \<Rightarrow> uid \<Rightarrow> uid \<Rightarrow> (exn + unit) \<times> graph" where
  "unblock g origin_id target_id =
     (if origin_id = target_id
      then (Inl (BlockError ''Users cannot unblock themselves''), g)
      else
        (case execute_write (\<lambda>tx. remove_block_relationship tx origin_id target_id) g of
           (Inl e, g') \<Rightarrow> (Inl (unblock_handler e), g')
         | (Inr r, g') \<Rightarrow> (Inr (), g')))"

section \<open>Follows (services/follow.py)\<close>

text \<open>
  The two relationship models of the record's \<^verbatim>\<open>relationship\<close> field.
  \<^verbatim>\<open>FollowRelationship\<close> has a \<^verbatim>\<open>created_at\<close> and an optional
  \<^verbatim>\<open>request_accepted_at\<close>, \<^verbatim>\<open>FollowRequestRelationship\<close> a \<^verbatim>\<open>created_at\<close> and a
  \<^verbatim>\<open>status\<close>; all of them must parse.
\<close>

record FollowRelationship =
  fr_created_at :: timestamp
  fr_request_accepted_at :: "timestamp option"

record FollowRequestRelationship =
  frr_created_at :: timestamp
  frr_status :: FollowRequestStatus

definition FollowRelationship_new :: "follows_edge \<Rightarrow> FollowRelationship option" where
  "FollowRelationship_new r =
     (case parse_temporal (f_created_at r) of
        None \<Rightarrow> None
      | Some c \<Rightarrow>
          (case f_request_accepted_at r of
             None \<Rightarrow> Some \<lparr>fr_created_at = c, fr_request_accepted_at = None\<rparr>
           | Some x \<Rightarrow>
               (case parse_temporal x of
                  None \<Rightarrow> None
                | Some y \<Rightarrow> Some \<lparr>fr_created_at = c, fr_request_accepted_at = Some y\<rparr>)))"

definition FollowRequestRelationship_new ::
  "request_edge \<Rightarrow> FollowRequestRelationship option" where
  "FollowRequestRelationship_new r =
     (case parse_temporal (r_created_at r) of
        None \<Rightarrow> None
      | Some c \<Rightarrow> Some \<lparr>frr_created_at = c, frr_status = r_status r\<rparr>)"

definition relationship_new ::
  "cval \<Rightarrow> (FollowRelationship + FollowRequestRelationship) option" where
  "relationship_new v =
     (case v of
        VFollows r \<Rightarrow> map_option Inl (FollowRelationship_new r)
      | VRequest r \<Rightarrow> map_option Inr (FollowRequestRelationship_new r)
      | _ \<Rightarrow> None)"

record CreateFollowRecord =
  cf_success :: bool
  cf_follower :: user_node
  cf_following :: user_node
  cf_relationship :: "FollowRelationship + FollowRequestRelationship"
  cf_is_direct_follow :: bool

text \<open>
  \<^verbatim>\<open>CreateFollowRecord(**kw)\<close>: the five fields are required, both nodes must make a
  \<^verbatim>\<open>User\<close> and the relationship one of the two relationship models.
\<close>

definition CreateFollowRecord_new :: "cmap \<Rightarrow> exn + CreateFollowRecord" where
  "CreateFollowRecord_new kw =
     (case (map_of kw ''success'', map_of kw ''follower'', map_of kw ''following'',
            map_of kw ''relationship'', map_of kw ''is_direct_follow'') of
        (Some (VBool s), Some (VNode a), Some (VNode b), Some v, Some (VBool d)) \<Rightarrow>
          (case relationship_new v of
             Some r \<Rightarrow>
               if User_ok a \<and> User_ok b
               then Inr \<lparr>cf_success = s, cf_follower = a, cf_following = b,
                         cf_relationship = r, cf_is_direct_follow = d\<rparr>
               else Inl (ValidationError ''validation errors for CreateFollowRecord'')
           | None \<Rightarrow> Inl (ValidationError ''validation errors for CreateFollowRecord''))
      | _ \<Rightarrow> Inl (ValidationError ''validation errors for CreateFollowRecord''))"

text \<open>
  The first query of \<^verbatim>\<open>_create_follow_relationship\<close>. Both users are matched and must
  differ; the row survives only when there is no \<^verbatim>\<open>BLOCKS\<close> edge in either direction
  and no \<^verbatim>\<open>REQUESTED_TO_FOLLOW\<close> or \<^verbatim>\<open>FOLLOWS\<close> edge from the follower to the
  target. The subquery is a union of two branches: \<^verbatim>\<open>is_private = true\<close> creates the
  pending request, \<^verbatim>\<open>is_private = false OR is_private IS NULL\<close> creates the follow edge
  and sets both counters with \<^verbatim>\<open>coalesce(c, 0) + 1\<close>. The parameter
  \<^verbatim>\<open>current_time\<close> is a \<^verbatim>\<open>datetime\<close> object, so the edge's \<^verbatim>\<open>created_at\<close> is a
  temporal value of the database.
\<close>

definition create_follow_query ::
  "graph \<Rightarrow> uid \<Rightarrow> uid \<Rightarrow> timestamp \<Rightarrow> (string \<times> cmap) list list \<times> graph" where
  "create_follow_query g origin_id target_id current_time =
     (case (users g origin_id, users g target_id) of
        (Some follower, Some following) \<Rightarrow>
          if origin_id = target_id then ([], g)
          else if blocks g (origin_id, target_id) \<noteq> None
                  \<or> blocks g (target_id, origin_id) \<noteq> None
                  \<or> requests g (origin_id, target_id) \<noteq> None
                  \<or> follows g (origin_id, target_id) \<noteq> None then ([], g)
          else if is_private following = Some True then
            let r = \<lparr>r_created_at = Neo current_time, r_status = PENDING\<rparr>;
                g' = g\<lparr>requests := (requests g)((origin_id, target_id) \<mapsto> r)\<rparr>
            in ([[(''result'',
                   [(''success'', VBool True),
                    (''follower'', VNode follower),
                    (''following'', VNode following),
                    (''relationship'', VRequest r),
                    (''is_direct_follow'', VBool False)])]], g')
          else
            let r = \<lparr>f_created_at = Neo current_time, f_request_accepted_at = None\<rparr>;
                follower' = follower\<lparr>
                  following_count := Some (coalesce (following_count follower) 0 + 1)\<rparr>;
                following' = following\<lparr>
                  follower_count := Some (coalesce (follower_count following) 0 + 1)\<rparr>;
                g' = g\<lparr>
                  users := (users g)(origin_id \<mapsto> follower', target_id \<mapsto> following'),
                  follows := (follows g)((origin_id, target_id) \<mapsto> r)\<rparr>
            in ([[(''result'',
                   [(''success'', VBool True),
                    (''follower'', VNode follower'),
                    (''following'', VNode following'),
                    (''relationship'', VFollows r),
                    (''is_direct_follow'', VBool True)])]], g')
      | _ \<Rightarrow> ([], g))"

text \<open>The second query of \<^verbatim>\<open>_create_follow_relationship\<close>, which only reads.\<close>

definition follow_check_query :: "graph \<Rightarrow> uid \<Rightarrow> uid \<Rightarrow> (string \<times> cmap) list list" where
  "follow_check_query g origin_id target_id =
     (case (users g origin_id, users g target_id) of
        (Some u1, Some u2) \<Rightarrow>
          [[(''block_status'',
             [(''blocked_by_follower'', VBool (blocks g (origin_id, target_id) \<noteq> None)),
              (''blocked_by_target'', VBool (blocks g (target_id, origin_id) \<noteq> None))])]]
      | _ \<Rightarrow> [])"

definition create_follow_relationship ::
  "graph \<Rightarrow> uid \<Rightarrow> uid \<Rightarrow> timestamp \<Rightarrow> exn + (CreateFollowRecord \<times> graph)" where
  "create_follow_relationship tx origin_id target_id current_time =
     (case create_follow_query tx origin_id target_id current_time of (result, tx') \<Rightarrow>
        (case single result of
           Some record \<Rightarrow>
             (case record_get record ''result'' of
                Inl e \<Rightarrow> Inl e
              | Inr kw \<Rightarrow>
                  (case CreateFollowRecord_new kw of
                     Inl e \<Rightarrow> Inl e
                   | Inr r \<Rightarrow> Inr (r, tx')))
         | None \<Rightarrow>
             (case single (follow_check_query tx' origin_id target_id) of
                Some block_data \<Rightarrow>
                  (case record_get block_data ''block_status'' of
                     Inl e \<Rightarrow> Inl e
                   | Inr status \<Rightarrow>
                       if map_of status ''blocked_by_follower'' = Some (VBool True)
                       then Inl (FollowCreationError ''Cannot follow a user you have blocked'')
                       else if map_of status ''blocked_by_target'' = Some (VBool True)
                       then Inl (FollowCreationError
                                   ''Cannot follow a user who has blocked you'')
                       else Inl (FollowCreationError ''Unknown error when following user''))
              | None \<Rightarrow> Inl (FollowCreationError ''Unknown error when following user''))))"

definition follow_user ::
  "graph \<Rightarrow> uid \<Rightarrow> uid \<Rightarrow> timestamp \<Rightarrow> (exn + CreateFollowRecord) \<times> graph" where
  "follow_user g origin_id target_id current_time =
     (if origin_id = target_id
      then (Inl (FollowCreationError ''Users cannot follow themselves''), g)
      else
        (case execute_write
                (\<lambda>tx. create_follow_relationship tx origin_id target_id current_time) g of
           (Inl e, g') \<Rightarrow>
             (Inl (FollowCreationError (''Failed to create follow: '' @ str_of e)), g')
         | (Inr r, g') \<Rightarrow> (Inr r, g')))"

text \<open>
  \<^verbatim>\<open>_remove_follow\<close>: the pattern matches only when the edge exists; the edge is
  deleted and both counters are set to themselves minus one (\<^verbatim>\<open>null - 1\<close> is
  \<^verbatim>\<open>null\<close>). The two assignments run in order, on the same node when both ids are equal.
  No deleted relationship means \<^verbatim>\<open>FollowNotFoundError\<close>.
\<close>

definition dec :: "int option \<Rightarrow> int option" where
  "dec c = map_option (\<lambda>n. n - 1) c"

definition remove_follow :: "graph \<Rightarrow> uid \<Rightarrow> uid \<Rightarrow> exn + (unit \<times> graph)" where
  "remove_follow tx origin_id target_id =
     (case (users tx origin_id, users tx target_id, follows tx (origin_id, target_id)) of
        (Some follower, Some following, Some r) \<Rightarrow>
          let us1 = (users tx)(origin_id \<mapsto>
                       follower\<lparr>following_count := dec (following_count follower)\<rparr>);
              following1 = (case us1 target_id of Some n \<Rightarrow> n | None \<Rightarrow> following);
              us2 = us1(target_id \<mapsto>
                       following1\<lparr>follower_count := dec (follower_count following1)\<rparr>)
          in Inr ((), tx\<lparr>users := us2,
                         follows := (follows tx)((origin_id, target_id) := None)\<rparr>)
      | _ \<Rightarrow> Inl (FollowNotFoundError ''Follow relationship not found''))"

definition unfollow_user :: "graph \<Rightarrow> uid \<Rightarrow> uid \<Rightarrow> (exn + unit) \<times> graph" where
  "unfollow_user g origin_id target_id =
     (case execute_write (\<lambda>tx. remove_follow tx origin_id target_id) g of
        (Inl (FollowNotFoundError m), g') \<Rightarrow> (Inl (FollowNotFoundError m), g')
      | (Inl e, g') \<Rightarrow> (Inl (FollowError (''Failed to unfollow user: '' @ str_of e)), g')
      | (Inr r, g') \<Rightarrow> (Inr (), g'))"

section \<open>Likes (services/like.py)\<close>

datatype ContentType = CT_POST | CT_COMMENT

fun ContentType_value :: "ContentType \<Rightarrow> string" where
  "ContentType_value CT_POST = ''post''"
| "ContentType_value CT_COMMENT = ''comment''"

definition ContentType_of :: "string \<Rightarrow> ContentType option" where
  "ContentType_of s =
     (if s = ''post'' then Some CT_POST else if s = ''comment'' then Some CT_COMMENT else None)"

record Like =
  l_user_id :: uid
  l_content_id :: pid
  l_content_type :: ContentType
  l_created_at :: timestamp

text \<open>
  \<^verbatim>\<open>Like(**kw)\<close>: four required fields; \<^verbatim>\<open>created_at\<close> is a \<^verbatim>\<open>datetime\<close> field,
  which takes the ISO string \<open>VTime\<close> and no \<open>VNeoTime\<close>.
\<close>

definition Like_new :: "cmap \<Rightarrow> exn + Like" where
  "Like_new kw =
     (case (map_of kw ''user_id'', map_of kw ''content_id'', map_of kw ''content_type'',
            map_of kw ''created_at'') of
        (Some (VUid u), Some (VUid c), Some (VStr t), Some (VTime d)) \<Rightarrow>
          (case ContentType_of t of
             Some ct \<Rightarrow> Inr \<lparr>l_user_id = u, l_content_id = c, l_content_type = ct,
                             l_created_at = d\<rparr>
           | None \<Rightarrow> Inl (ValidationError ''1 validation error for Like''))
      | _ \<Rightarrow> Inl (ValidationError ''validation errors for Like''))"

text \<open>
  The first query of \<^verbatim>\<open>_create_post_like\<close>: user and post are matched, the
  \<^verbatim>\<open>LIKED\<close> edge is merged, and only \<^verbatim>\<open>ON CREATE\<close> are the edge's time stamp and
  \<^verbatim>\<open>post.like_count = coalesce(post.like_count, 0) + 1\<close> set. The parameter
  \<^verbatim>\<open>current_datetime\<close> is a \<^verbatim>\<open>datetime\<close> object, so the edge's \<^verbatim>\<open>created_at\<close> is a
  temporal value of the database; the row returns the edge's \<^verbatim>\<open>created_at\<close>.
\<close>

definition create_post_like_query ::
  "graph \<Rightarrow> pid \<Rightarrow> uid \<Rightarrow> ContentType \<Rightarrow> timestamp \<Rightarrow> (string \<times> cmap) list list \<times> graph"
  where
  "create_post_like_query g post_id user_id content_type current_datetime =
     (case (users g user_id, posts g post_id) of
        (Some user, Some post) \<Rightarrow>
          (case liked g (user_id, post_id) of
             Some created_at \<Rightarrow>
               ([[(''like'',
                   [(''user_id'', VUid user_id),
                    (''content_id'', VUid post_id),
                    (''content_type'', VStr (ContentType_value content_type)),
                    (''created_at'', time_val created_at)])]], g)
           | None \<Rightarrow>
               ([[(''like'',
                   [(''user_id'', VUid user_id),
                    (''content_id'', VUid post_id),
                    (''content_type'', VStr (ContentType_value content_type)),
                    (''created_at'', time_val (Neo current_datetime))])]],
                g\<lparr>liked := (liked g)((user_id, post_id) \<mapsto> Neo current_datetime),
                   posts := (posts g)(post_id \<mapsto>
                     post\<lparr>like_count := Some (coalesce (like_count post) 0 + 1)\<rparr>)\<rparr>))
      | _ \<Rightarrow> ([], g))"

definition like_check_query :: "graph \<Rightarrow> pid \<Rightarrow> uid \<Rightarrow> (string \<times> cmap) list list" where
  "like_check_query g post_id user_id =
     (case (users g user_id, posts g post_id) of
        (Some user, Some post) \<Rightarrow>
          [[(''status'', [(''user_exists'', VBool True), (''post_exists'', VBool True)])]]
      | _ \<Rightarrow> [])"

definition create_post_like ::
  "graph \<Rightarrow> pid \<Rightarrow> uid \<Rightarrow> ContentType \<Rightarrow> timestamp \<Rightarrow> exn + (Like \<times> graph)" where
  "create_post_like tx post_id user_id content_type current_datetime =
     (case create_post_like_query tx post_id user_id content_type current_datetime of
        (result, tx') \<Rightarrow>
          (case single result of
             Some record \<Rightarrow>
               (case record_get record ''like'' of
                  Inl e \<Rightarrow> Inl e
                | Inr kw \<Rightarrow>
                    (case Like_new kw of Inl e \<Rightarrow> Inl e | Inr l \<Rightarrow> Inr (l, tx')))
           | None \<Rightarrow>
               (case single (like_check_query tx' post_id user_id) of
                  Some status_data \<Rightarrow>
                    (case record_get status_data ''status'' of
                       Inl e \<Rightarrow> Inl e
                     | Inr status \<Rightarrow>
                         if map_of status ''user_exists'' \<noteq> Some (VBool True)
                         then Inl (ValueError ''User not found'')
                         else if map_of status ''post_exists'' \<noteq> Some (VBool True)
                         then Inl (ValueError ''Post not found'')
                         else Inl (ValueError ''Something went wrong while liking the post''))
                | None \<Rightarrow> Inl (ValueError ''Something went wrong while liking the post''))))"

definition like_post ::
  "graph \<Rightarrow> uid \<Rightarrow> pid \<Rightarrow> ContentType \<Rightarrow> timestamp \<Rightarrow> (exn + Like) \<times> graph" where
  "like_post g user_id post_id content_type current_datetime =
     execute_write (\<lambda>tx. create_post_like tx post_id user_id content_type current_datetime) g"

text \<open>
  The first query of \<^verbatim>\<open>_remove_post_like\<close>: the row survives \<^verbatim>\<open>WHERE like_exists\<close>
  only when the edge exists; the edge is deleted and the counter set to itself minus one.
\<close>

definition remove_post_like_query ::
  "graph \<Rightarrow> pid \<Rightarrow> uid \<Rightarrow> (string \<times> cmap) list list \<times> graph" where
  "remove_post_like_query g post_id user_id =
     (case (users g user_id, posts g post_id, liked g (user_id, post_id)) of
        (Some user, Some post, Some r) \<Rightarrow>
          ([[(''result'', [(''success'', VBool True)])]],
           g\<lparr>liked := (liked g)((user_id, post_id) := None),
              posts := (posts g)(post_id \<mapsto> post\<lparr>like_count := dec (like_count post)\<rparr>)\<rparr>)
      | _ \<Rightarrow> ([], g))"

definition unlike_check_query :: "graph \<Rightarrow> pid \<Rightarrow> uid \<Rightarrow> (string \<times> cmap) list list" where
  "unlike_check_query g post_id user_id =
     (case (users g user_id, posts g post_id) of
        (Some user, Some post) \<Rightarrow>
          [[(''status'',
             [(''user_exists'', VBool True),
              (''post_exists'', VBool True),
              (''like_exists'', VBool (liked g (user_id, post_id) \<noteq> None))])]]
      | _ \<Rightarrow> [])"

definition remove_post_like :: "graph \<Rightarrow> pid \<Rightarrow> uid \<Rightarrow> exn + (unit \<times> graph)" where
  "remove_post_like tx post_id user_id =
     (case remove_post_like_query tx post_id user_id of (result, tx') \<Rightarrow>
        (case single result of
           Some record \<Rightarrow> Inr ((), tx')
         | None \<Rightarrow>
             (case single (unlike_check_query tx' post_id user_id) of
                Some status_data \<Rightarrow>
                  (case record_get status_data ''status'' of
                     Inl e \<Rightarrow> Inl e
                   | Inr status \<Rightarrow>
                       if map_of status ''user_exists'' \<noteq> Some (VBool True)
                       then Inl (ValueError ''User not found'')
                       else if map_of status ''post_exists'' \<noteq> Some (VBool True)
                       then Inl (ValueError ''Post not found'')
                       else if map_of status ''like_exists'' \<noteq> Some (VBool True)
                       then Inl (ValueError [CHR ''Y'', CHR ''o'', CHR ''u'', CHR '' '',
                                   CHR ''h'', CHR ''a'', CHR ''v'', CHR ''e'', CHR ''n'',
                                   CHR 0x27, CHR ''t'', CHR '' '', CHR ''l'', CHR ''i'',
                                   CHR ''k'', CHR ''e'', CHR ''d'', CHR '' '', CHR ''t'',
                                   CHR ''h'', CHR ''i'', CHR ''s'', CHR '' '', CHR ''p'',
                                   CHR ''o'', CHR ''s'', CHR ''t''])
                       else Inl (ValueError
                                   ''Something went wrong removing your post like''))
              | None \<Rightarrow> Inl (ValueError ''Something went wrong removing your post like''))))"

definition unlike_post :: "graph \<Rightarrow> uid \<Rightarrow> pid \<Rightarrow> (exn + unit) \<times> graph" where
  "unlike_post g user_id post_id =
     execute_write (\<lambda>tx. remove_post_like tx post_id user_id) g"

section \<open>Dating actions and matches (services/dating.py)\<close>

record DatingMatch =
  dm_match_id :: nat
  dm_user_id_a :: uid
  dm_user_id_b :: uid
  dm_user_a_action :: "InteractionType option"
  dm_user_b_action :: "InteractionType option"
  dm_distance_miles :: real
  dm_compatibility_score :: real
  dm_is_mutual :: bool
  dm_created_at :: timestamp
  dm_updated_at :: timestamp

definition opt_action :: "cval option \<Rightarrow> (InteractionType option) option" where
  "opt_action v =
     (case v of
        None \<Rightarrow> Some None
      | Some VNull \<Rightarrow> Some None
      | Some (VAction a) \<Rightarrow> Some (Some a)
      | _ \<Rightarrow> None)"

definition opt_bool :: "cval option \<Rightarrow> bool \<Rightarrow> bool option" where
  "opt_bool v d = (case v of None \<Rightarrow> Some d | Some (VBool b) \<Rightarrow> Some b | _ \<Rightarrow> None)"

text \<open>
  \<^verbatim>\<open>DatingMatch(**kw)\<close>: ids, \<^verbatim>\<open>distance_miles\<close>, \<^verbatim>\<open>compatibility_score\<close> (between 0
  and 1) and both time stamps are required and not nullable; the two actions are nullable
  and \<^verbatim>\<open>is_mutual\<close> has a default. The message of the error is cut down to its first
  line, which names the model.
\<close>

definition DatingMatch_new :: "cmap \<Rightarrow> exn + DatingMatch" where
  "DatingMatch_new kw =
     (case (map_of kw ''match_id'', map_of kw ''user_id_a'', map_of kw ''user_id_b'',
            opt_action (map_of kw ''user_a_action''), opt_action (map_of kw ''user_b_action''),
            map_of kw ''distance_miles'', map_of kw ''compatibility_score'',
            opt_bool (map_of kw ''is_mutual'') False,
            map_of kw ''created_at'', map_of kw ''updated_at'') of
        (Some (VUid i), Some (VUid a), Some (VUid b), Some xa, Some xb,
         Some (VNum d), Some (VNum c), Some mu, Some (VTime ct), Some (VTime ut)) \<Rightarrow>
          if 0 \<le> c \<and> c \<le> 1
          then Inr \<lparr>dm_match_id = i, dm_user_id_a = a, dm_user_id_b = b,
                    dm_user_a_action = xa, dm_user_b_action = xb, dm_distance_miles = d,
                    dm_compatibility_score = c, dm_is_mutual = mu,
                    dm_created_at = ct, dm_updated_at = ut\<rparr>
          else Inl (ValidationError ''1 validation error for DatingMatch'')
      | _ \<Rightarrow> Inl (ValidationError ''1 validation error for DatingMatch''))"

definition dating_check_query :: "graph \<Rightarrow> uid \<Rightarrow> uid \<Rightarrow> (string \<times> cmap) list list" where
  "dating_check_query g user_id target_id =
     (case (users g user_id, users g target_id) of
        (Some user, Some target) \<Rightarrow>
          [[(''status'',
             [(''user_exists'', VBool True),
              (''target_exists'', VBool True),
              (''is_blocked'', VBool (blocks g (user_id, target_id) \<noteq> None
                                      \<or> blocks g (target_id, user_id) \<noteq> None))])]]
      | _ \<Rightarrow> [])"

text \<open>
  \<^verbatim>\<open>point.distance(point({...}), point({...})) * 0.000621371\<close>: the geodesic distance
  \<open>pd\<close> is computed by the database and is a parameter; the result is \<^verbatim>\<open>null\<close> as soon
  as one coordinate is.
\<close>

definition point_distance_miles ::
  "(real \<times> real \<Rightarrow> real \<times> real \<Rightarrow> real) \<Rightarrow> user_node \<Rightarrow> user_node \<Rightarrow> real option" where
  "point_distance_miles pd user target =
     (case (latitude user, longitude user, latitude target, longitude target) of
        (Some la, Some lo, Some lb, Some lp) \<Rightarrow> Some (pd (la, lo) (lb, lp) * 0.000621371)
      | _ \<Rightarrow> None)"

definition num_val :: "real option \<Rightarrow> cval" where
  "num_val v = (case v of None \<Rightarrow> VNull | Some x \<Rightarrow> VNum x)"

text \<open>
  The second query of \<^verbatim>\<open>_record_dating_action\<close>. The action edge of the given type is
  merged and stamped. The row survives only when the action is \<^verbatim>\<open>SWIPE_RIGHT\<close> or
  \<^verbatim>\<open>SUPER_LIKE\<close> and the target has such an edge towards the user; then the undirected
  \<^verbatim>\<open>DATING_MATCH\<close> is merged: an existing edge in either direction is kept, otherwise
  one is created with the fresh id.
\<close>

definition dating_action_query ::
  "(real \<times> real \<Rightarrow> real \<times> real \<Rightarrow> real) \<Rightarrow> graph \<Rightarrow> uid \<Rightarrow> uid \<Rightarrow> InteractionType \<Rightarrow> nat
     \<Rightarrow> timestamp \<Rightarrow> (string \<times> cmap) list list \<times> graph" where
  "dating_action_query pd g user_id target_id action match_id current_time =
     (case (users g user_id, users g target_id) of
        (Some user, Some target) \<Rightarrow>
          let g1 = g\<lparr>dating_actions :=
                      (dating_actions g)((user_id, target_id, action) \<mapsto> current_time)\<rparr>;
              they_like = (dating_actions g1 (target_id, user_id, SWIPE_RIGHT) \<noteq> None);
              they_super = (dating_actions g1 (target_id, user_id, SUPER_LIKE) \<noteq> None)
          in if (action = SWIPE_RIGHT \<or> action = SUPER_LIKE) \<and> (they_like \<or> they_super)
             then
               let existing = (case dating_matches g1 (user_id, target_id) of
                                 Some m \<Rightarrow> Some m
                               | None \<Rightarrow> dating_matches g1 (target_id, user_id));
                   created = \<lparr>m_match_id = match_id, m_created_at = current_time,
                              m_updated_at = current_time, m_compatibility_score = 0\<rparr>;
                   m = (case existing of Some m \<Rightarrow> m | None \<Rightarrow> created);
                   g2 = (case existing of
                           Some m \<Rightarrow> g1
                         | None \<Rightarrow> g1\<lparr>dating_matches :=
                                       (dating_matches g1)((user_id, target_id) \<mapsto> created)\<rparr>)
               in ([[(''match'',
                      [(''match_id'', VUid (m_match_id m)),
                       (''user_id_a'', VUid user_id),
                       (''user_id_b'', VUid target_id),
                       (''user_a_action'', VAction action),
                       (''user_b_action'', VAction (if they_super then SUPER_LIKE
                                                    else SWIPE_RIGHT)),
                       (''distance_miles'', num_val (point_distance_miles pd user target)),
                       (''compatibility_score'', VNum 0),
                       (''is_mutual'', VBool True),
                       (''created_at'', VTime (m_created_at m)),
                       (''updated_at'', VTime (m_updated_at m))])]], g2)
             else ([], g1)
      | _ \<Rightarrow> ([], g))"

text \<open>The body of the \<^verbatim>\<open>try\<close> block of \<^verbatim>\<open>_record_dating_action\<close>.\<close>

definition record_dating_action_try ::
  "(real \<times> real \<Rightarrow> real \<times> real \<Rightarrow> real) \<Rightarrow> graph \<Rightarrow> uid \<Rightarrow> uid \<Rightarrow> InteractionType \<Rightarrow> nat
     \<Rightarrow> timestamp \<Rightarrow> exn + (DatingMatch option \<times> graph)" where
  "record_dating_action_try pd tx user_id target_id action match_id current_time =
     (case single (dating_check_query tx user_id target_id) of
        None \<Rightarrow> Inl (ActionRecordingError ''Failed to verify users'')
      | Some check \<Rightarrow>
          (case record_get check ''status'' of
             Inl e \<Rightarrow> Inl e
           | Inr status \<Rightarrow>
               if map_of status ''user_exists'' \<noteq> Some (VBool True)
               then Inl (ActionRecordingError ''User not found'')
               else if map_of status ''target_exists'' \<noteq> Some (VBool True)
               then Inl (ActionRecordingError ''Target user not found'')
               else if map_of status ''is_blocked'' = Some (VBool True)
               then Inl (ActionRecordingError ''Cannot interact with blocked user'')
               else
                 (case dating_action_query pd tx user_id target_id action match_id
                         current_time of
                    (result, tx') \<Rightarrow>
                      (case single result of
                         Some record \<Rightarrow>
                           (case record_get record ''match'' of
                              Inl e \<Rightarrow> Inl e
                            | Inr kw \<Rightarrow>
                                (case DatingMatch_new kw of
                                   Inl e \<Rightarrow> Inl e
                                 | Inr m \<Rightarrow> Inr (Some m, tx')))
                       | None \<Rightarrow> Inr (None, tx')))))"

text \<open>The \<^verbatim>\<open>except Exception\<close> clause of \<^verbatim>\<open>_record_dating_action\<close>.\<close>

definition record_dating_action_except :: "exn \<Rightarrow> exn" where
  "record_dating_action_except e =
     (if contains ''match'' (lower (str_of e))
      then MatchCreationError (''Failed to create match: '' @ str_of e)
      else ActionRecordingError (''Failed to record action: '' @ str_of e))"

definition record_dating_action_tx ::
  "(real \<times> real \<Rightarrow> real \<times> real \<Rightarrow> real) \<Rightarrow> graph \<Rightarrow> uid \<Rightarrow> uid \<Rightarrow> InteractionType \<Rightarrow> nat
     \<Rightarrow> timestamp \<Rightarrow> exn + (DatingMatch option \<times> graph)" where
  "record_dating_action_tx pd tx user_id target_id action match_id current_time =
     (case record_dating_action_try pd tx user_id target_id action match_id current_time of
        Inl e \<Rightarrow> Inl (record_dating_action_except e)
      | Inr r \<Rightarrow> Inr r)"

definition record_dating_action ::
  "(real \<times> real \<Rightarrow> real \<times> real \<Rightarrow> real) \<Rightarrow> graph \<Rightarrow> uid \<Rightarrow> uid \<Rightarrow> InteractionType \<Rightarrow> nat
     \<Rightarrow> timestamp \<Rightarrow> (exn + DatingMatch option) \<times> graph" where
  "record_dating_action pd g user_id target_id action match_id current_time =
     (if user_id = target_id
      then (Inl (ActionRecordingError ''Cannot perform dating action on yourself''), g)
      else if action \<notin> {SWIPE_RIGHT, SWIPE_LEFT, SUPER_LIKE}
      then (Inl (ActionRecordingError ''Invalid dating action type''), g)
      else execute_write
             (\<lambda>tx. record_dating_action_tx pd tx user_id target_id action match_id
                      current_time) g)"


section \<open>Dating profiles and filters (models/dating.py)\<close>

datatype Gender = MALE | FEMALE | NON_BINARY | OTHER

datatype Sexuality = STRAIGHT | GAY | LESBIAN | BISEXUAL | PANSEXUAL | ASEXUAL | S_OTHER

definition Gender_of :: "string \<Rightarrow> Gender option" where
  "Gender_of s =
     map_of [(''male'', MALE), (''female'', FEMALE), (''non_binary'', NON_BINARY),
             (''other'', OTHER)] s"

fun Gender_value :: "Gender \<Rightarrow> string" where
  "Gender_value MALE = ''male''"
| "Gender_value FEMALE = ''female''"
| "Gender_value NON_BINARY = ''non_binary''"
| "Gender_value OTHER = ''other''"

definition Sexuality_of :: "string \<Rightarrow> Sexuality option" where
  "Sexuality_of s =
     map_of [(''straight'', STRAIGHT), (''gay'', GAY), (''lesbian'', LESBIAN),
             (''bisexual'', BISEXUAL), (''pansexual'', PANSEXUAL), (''asexual'', ASEXUAL),
             (''other'', S_OTHER)] s"

text \<open>
  The keyword arguments of \<^verbatim>\<open>DatingProfile(...)\<close>, each with the type its field coerces
  to. Dates are day numbers, so that \<^verbatim>\<open>(date.today() - v).days\<close> is a subtraction. An
  argument with a default that is left out is \<open>None\<close>.
\<close>

record DatingProfile_args =
  a_user_id :: uid
  a_bio :: string
  a_birth_date :: int
  a_gender :: Gender
  a_sexuality :: Sexuality
  a_photos :: "string list"
  a_max_distance_miles :: "real option"
  a_min_age_preference :: "int option"
  a_max_age_preference :: "int option"
  a_gender_preference :: "Gender list"
  a_is_visible :: "bool option"
  a_created_at :: timestamp
  a_updated_at :: timestamp

record DatingProfile =
  p_user_id :: uid
  p_bio :: string
  p_birth_date :: int
  p_gender :: Gender
  p_sexuality :: Sexuality
  p_photos :: "string list"
  p_max_distance_miles :: real
  p_min_age_preference :: int
  p_max_age_preference :: int
  p_gender_preference :: "Gender list"
  p_is_visible :: bool
  p_created_at :: timestamp
  p_updated_at :: timestamp

text \<open>\<^verbatim>\<open>age = (date.today() - v).days / 365.25\<close> of \<^verbatim>\<open>validate_age\<close>.\<close>

definition age_years :: "int \<Rightarrow> int \<Rightarrow> real" where
  "age_years today v = real_of_int (today - v) / 365.25"

definition validate_age :: "int \<Rightarrow> int \<Rightarrow> exn + int" where
  "validate_age today v =
     (let age = age_years today v
      in if age < 18 then Inl (ValueError ''Must be at least 18 years old'')
         else if age > 100 then Inl (ValueError ''Invalid birth date'')
         else Inr v)"

text \<open>
  \<^verbatim>\<open>validate_age_range\<close> of \<^verbatim>\<open>max_age_preference\<close>; \<open>data_min\<close> is
  \<^verbatim>\<open>info.data.get("min_age_preference")\<close>, absent when that field failed its own
  validation.
\<close>

definition validate_age_range :: "int option \<Rightarrow> int \<Rightarrow> exn + int" where
  "validate_age_range data_min v =
     (if v < coalesce data_min 18
      then Inl (ValueError ''Maximum age must be greater than minimum age'')
      else Inr v)"

definition validate_gender_preference :: "Gender list \<Rightarrow> exn + Gender list" where
  "validate_gender_preference v =
     (if v = [] then Inl (ValueError ''Must specify at least one gender preference'')
      else Inr v)"

text \<open>
  The field constraints (\<^verbatim>\<open>Field(max_length=500)\<close>, \<^verbatim>\<open>Field(max_length=5)\<close>,
  \<^verbatim>\<open>Field(ge=1, le=100)\<close>, \<^verbatim>\<open>Field(ge=18, le=100)\<close>) and then the validators. A
  validator runs only on a value that was passed and that met its field constraint; a
  default is taken as it is.
\<close>

definition min_age_field :: "int option \<Rightarrow> int option" where
  "min_age_field v =
     (case v of None \<Rightarrow> Some 18
      | Some m \<Rightarrow> if 18 \<le> m \<and> m \<le> 100 then Some m else None)"

definition max_age_field :: "int option \<Rightarrow> int option \<Rightarrow> int option" where
  "max_age_field data_min v =
     (case v of None \<Rightarrow> Some 100
      | Some m \<Rightarrow>
          if 18 \<le> m \<and> m \<le> 100
          then (case validate_age_range data_min m of Inl e \<Rightarrow> None | Inr x \<Rightarrow> Some x)
          else None)"

definition max_distance_field :: "real option \<Rightarrow> real option" where
  "max_distance_field v =
     (case v of None \<Rightarrow> Some 50
      | Some d \<Rightarrow> if 1 \<le> d \<and> d \<le> 100 then Some d else None)"

definition DatingProfile_new :: "int \<Rightarrow> DatingProfile_args \<Rightarrow> exn + DatingProfile" where
  "DatingProfile_new today a =
     (let data_min = min_age_field (a_min_age_preference a)
      in case (validate_age today (a_birth_date a),
               max_distance_field (a_max_distance_miles a),
               data_min,
               max_age_field data_min (a_max_age_preference a),
               validate_gender_preference (a_gender_preference a)) of
           (Inr b, Some d, Some mn, Some mx, Inr gp) \<Rightarrow>
             if length (a_bio a) \<le> 500 \<and> length (a_photos a) \<le> 5
             then Inr \<lparr>p_user_id = a_user_id a, p_bio = a_bio a, p_birth_date = b,
                       p_gender = a_gender a, p_sexuality = a_sexuality a,
                       p_photos = a_photos a, p_max_distance_miles = d,
                       p_min_age_preference = mn, p_max_age_preference = mx,
                       p_gender_preference = gp,
                       p_is_visible = coalesce (a_is_visible a) True,
                       p_created_at = a_created_at a, p_updated_at = a_updated_at a\<rparr>
             else Inl (ValidationError ''validation errors for DatingProfile'')
         | _ \<Rightarrow> Inl (ValidationError ''validation errors for DatingProfile''))"

record DatingFilter =
  df_max_distance_miles :: real
  df_min_age :: int
  df_max_age :: int
  df_gender_preference :: "Gender list option"
  df_exclude_seen :: bool
  df_exclude_matched :: bool
  df_min_compatibility :: real
  df_limit :: nat
  df_offset :: nat

text \<open>The constraints a \<^verbatim>\<open>DatingFilter\<close> has met when it was built.\<close>

definition DatingFilter_valid :: "DatingFilter \<Rightarrow> bool" where
  "DatingFilter_valid f =
     (1 \<le> df_max_distance_miles f \<and> df_max_distance_miles f \<le> 100
      \<and> 18 \<le> df_min_age f \<and> df_min_age f \<le> 100
      \<and> 18 \<le> df_max_age f \<and> df_max_age f \<le> 100 \<and> df_min_age f \<le> df_max_age f
      \<and> 0 \<le> df_min_compatibility f \<and> df_min_compatibility f \<le> 1
      \<and> 1 \<le> df_limit f \<and> df_limit f \<le> 100)"

section \<open>Potential matches (services/dating.py)\<close>

text \<open>
  The compatibility score of the query of \<^verbatim>\<open>_get_potential_matches\<close>. The embedding
  similarity (\<^verbatim>\<open>gds.similarity.cosine\<close>) and the \<^verbatim>\<open>SIMILAR\<close> edge's similarity are
  computed by the database and may be \<^verbatim>\<open>null\<close>; the interaction score and the distance
  are computed by the query from the \<^verbatim>\<open>INTERACTED_WITH\<close> edges and the coordinates.
\<close>

record interaction =
  i_completion_rate :: real
  i_engagement_signals :: "string list"
  i_unregretted :: bool
  i_created_at :: timestamp
  i_updated_at :: timestamp

definition interaction_score :: "interaction list \<Rightarrow> real" where
  "interaction_score interactions =
     (if length interactions > 0
      then sum_list (map (\<lambda>i. i_completion_rate i * real (length (i_engagement_signals i))
                              * (if i_unregretted i then 1.5 else 1.0)) interactions)
           / real (length interactions)
      else 0)"

definition distance_miles ::
  "(real \<times> real \<Rightarrow> real \<times> real \<Rightarrow> real) \<Rightarrow> user_node \<Rightarrow> user_node \<Rightarrow> real option" where
  "distance_miles pd user target =
     (if latitude user \<noteq> None \<and> longitude user \<noteq> None
         \<and> latitude target \<noteq> None \<and> longitude target \<noteq> None
      then point_distance_miles pd user target
      else Some 10000)"

definition compatibility_score ::
  "real option \<Rightarrow> real option \<Rightarrow> real \<Rightarrow> real option \<Rightarrow> real \<Rightarrow> real" where
  "compatibility_score embedding_sim node_sim interaction_sc dist_miles max_distance_miles =
     coalesce embedding_sim 0.0 * 0.3
     + coalesce node_sim 0.0 * 0.2
     + interaction_sc * 0.2
     + (case dist_miles of
          Some d \<Rightarrow> (1 - (d / max_distance_miles)) * 0.3
        | None \<Rightarrow> 0.15)"

text \<open>A pair of users as the scoring stage of the query sees it.\<close>

record candidate =
  c_user :: user_node
  c_target :: user_node
  c_embedding_sim :: "real option"
  c_node_sim :: "real option"
  c_interactions :: "interaction list"

definition candidate_score ::
  "(real \<times> real \<Rightarrow> real \<times> real \<Rightarrow> real) \<Rightarrow> real \<Rightarrow> candidate \<Rightarrow> real" where
  "candidate_score pd max_distance_miles c =
     compatibility_score (c_embedding_sim c) (c_node_sim c)
       (interaction_score (c_interactions c))
       (distance_miles pd (c_user c) (c_target c)) max_distance_miles"

text \<open>
  A row of the query's result: the properties of the target's \<^verbatim>\<open>DatingProfile\<close> node
  with \<^verbatim>\<open>age\<close> and \<^verbatim>\<open>compatibility_score\<close> added. \<^verbatim>\<open>birth_date\<close> is a temporal
  property; \<^verbatim>\<open>created_at\<close> and \<^verbatim>\<open>updated_at\<close> are ISO strings.
\<close>

record profile_row =
  pr_user_id :: uid
  pr_compatibility_score :: real
  pr_age :: int
  pr_bio :: string
  pr_birth_date :: "int temporal"
  pr_gender :: string
  pr_sexuality :: string
  pr_photos :: "string list"
  pr_max_distance_miles :: "real option"
  pr_min_age_preference :: "int option"
  pr_max_age_preference :: "int option"
  pr_gender_preference :: "string list"
  pr_is_visible :: "bool option"
  pr_created_at :: timestamp
  pr_updated_at :: timestamp

text \<open>The message of the \<^verbatim>\<open>ValueError\<close> of an enum given a string that is no value of it.\<close>

definition not_valid :: "string \<Rightarrow> string \<Rightarrow> exn" where
  "not_valid s enum = ValueError ([CHR 0x27] @ s @ [CHR 0x27] @ '' is not a valid '' @ enum)"

fun those_genders :: "string list \<Rightarrow> exn + Gender list" where
  "those_genders [] = Inr []"
| "those_genders (s # ss) =
     (case Gender_of s of
        None \<Rightarrow> Inl (not_valid s ''Gender'')
      | Some g \<Rightarrow> (case those_genders ss of Inl e \<Rightarrow> Inl e | Inr gs \<Rightarrow> Inr (g # gs)))"

text \<open>
  The conversions of a row and the construction of the profile. \<open>url_ok\<close> says which
  strings \<^verbatim>\<open>HttpUrl\<close> accepts; \<^verbatim>\<open>age\<close> and \<^verbatim>\<open>compatibility_score\<close> name no field of
  \<^verbatim>\<open>DatingProfile\<close> and are dropped. \<^verbatim>\<open>birth_date\<close> is passed as the row has it, and
  the \<^verbatim>\<open>date\<close> field has to parse it.
\<close>

definition profile_of_row ::
  "(string \<Rightarrow> bool) \<Rightarrow> int \<Rightarrow> profile_row \<Rightarrow> exn + DatingProfile" where
  "profile_of_row url_ok today row =
     (if \<not> list_all url_ok (pr_photos row)
      then Inl (ValidationError ''1 validation error for HttpUrl'')
      else case Gender_of (pr_gender row) of
        None \<Rightarrow> Inl (not_valid (pr_gender row) ''Gender'')
      | Some g \<Rightarrow>
          (case Sexuality_of (pr_sexuality row) of
             None \<Rightarrow> Inl (not_valid (pr_sexuality row) ''Sexuality'')
           | Some sx \<Rightarrow>
               (case those_genders (pr_gender_preference row) of
                  Inl e \<Rightarrow> Inl e
                | Inr gp \<Rightarrow>
                    (case parse_temporal (pr_birth_date row) of
                       None \<Rightarrow> Inl (ValidationError ''validation errors for DatingProfile'')
                     | Some b \<Rightarrow>
                         DatingProfile_new today
                           \<lparr>a_user_id = pr_user_id row, a_bio = pr_bio row,
                            a_birth_date = b, a_gender = g, a_sexuality = sx,
                            a_photos = pr_photos row,
                            a_max_distance_miles = pr_max_distance_miles row,
                            a_min_age_preference = pr_min_age_preference row,
                            a_max_age_preference = pr_max_age_preference row,
                            a_gender_preference = gp, a_is_visible = pr_is_visible row,
                            a_created_at = pr_created_at row,
                            a_updated_at = pr_updated_at row\<rparr>))))"

text \<open>
  What the query guarantees of its rows, as far as the loop is concerned: the tests
  \<^verbatim>\<open>target_profile.is_visible = true\<close>, \<^verbatim>\<open>target_age >= $min_age\<close>,
  \<^verbatim>\<open>target_age <= $max_age\<close> and \<^verbatim>\<open>target_profile.gender IN $gender_preference\<close> (the
  parameter is the empty list when the filter has no preference), the order
  \<^verbatim>\<open>ORDER BY compatibility_score DESC\<close> and \<^verbatim>\<open>LIMIT 1000\<close>. The \<^verbatim>\<open>birth_date\<close> of a
  profile node is written by \<^verbatim>\<open>_create_dating_profile\<close> and
  \<^verbatim>\<open>_update_dating_profile\<close> only, both with \<^verbatim>\<open>date($birth_date)\<close>.
\<close>

definition row_from_query :: "DatingFilter \<Rightarrow> profile_row \<Rightarrow> bool" where
  "row_from_query filters row =
     (pr_is_visible row = Some True
      \<and> df_min_age filters \<le> pr_age row \<and> pr_age row \<le> df_max_age filters
      \<and> pr_gender row \<in> set (map Gender_value
                                (case df_gender_preference filters of
                                   None \<Rightarrow> []
                                 | Some gs \<Rightarrow> gs))
      \<and> (case pr_birth_date row of Neo d \<Rightarrow> True | Iso d \<Rightarrow> False))"

definition result_from_query :: "DatingFilter \<Rightarrow> profile_row list \<Rightarrow> bool" where
  "result_from_query filters result =
     (list_all (row_from_query filters) result
      \<and> sorted_wrt (\<ge>) (map pr_compatibility_score result)
      \<and> length result \<le> 1000)"

definition check_existing_match :: "graph \<Rightarrow> uid \<Rightarrow> uid \<Rightarrow> bool" where
  "check_existing_match tx user_id target_id =
     (users tx user_id \<noteq> None \<and> users tx target_id \<noteq> None
      \<and> (dating_matches tx (user_id, target_id) \<noteq> None
           \<or> dating_matches tx (target_id, user_id) \<noteq> None))"

text \<open>
  The \<^verbatim>\<open>for\<close> loop over the rows: the three \<^verbatim>\<open>continue\<close> tests, the conversion, the
  \<^verbatim>\<open>append\<close> and the \<^verbatim>\<open>break\<close> once \<^verbatim>\<open>len(matches) >= filters.limit\<close>.
\<close>

fun matches_loop ::
  "(string \<Rightarrow> bool) \<Rightarrow> int \<Rightarrow> graph \<Rightarrow> uid \<Rightarrow> DatingFilter \<Rightarrow> uid set \<Rightarrow> profile_row list
     \<Rightarrow> DatingProfile list \<Rightarrow> exn + DatingProfile list" where
  "matches_loop url_ok today tx user_id filters seen_ids [] matches = Inr matches"
| "matches_loop url_ok today tx user_id filters seen_ids (row # result) matches =
     (if df_exclude_seen filters \<and> pr_user_id row \<in> seen_ids
      then matches_loop url_ok today tx user_id filters seen_ids result matches
      else if df_exclude_matched filters \<and> check_existing_match tx user_id (pr_user_id row)
      then matches_loop url_ok today tx user_id filters seen_ids result matches
      else if pr_compatibility_score row < df_min_compatibility filters
      then matches_loop url_ok today tx user_id filters seen_ids result matches
      else case profile_of_row url_ok today row of
             Inl e \<Rightarrow> Inl e
           | Inr p \<Rightarrow>
               let matches' = matches @ [p]
               in if length matches' \<ge> df_limit filters then Inr matches'
                  else matches_loop url_ok today tx user_id filters seen_ids result matches')"

text \<open>
  \<^verbatim>\<open>_get_potential_matches\<close> after the query: \<^verbatim>\<open>seen_ids = set()\<close>, the loop, and
  \<^verbatim>\<open>matches[filters.offset:]\<close>.
\<close>

definition get_potential_matches ::
  "(string \<Rightarrow> bool) \<Rightarrow> int \<Rightarrow> graph \<Rightarrow> uid \<Rightarrow> DatingFilter \<Rightarrow> profile_row list
     \<Rightarrow> exn + DatingProfile list" where
  "get_potential_matches url_ok today tx user_id filters result =
     (case matches_loop url_ok today tx user_id filters {} result [] of
        Inl e \<Rightarrow> Inl e
      | Inr matches \<Rightarrow> Inr (drop (df_offset filters) matches))"

section \<open>Counters and edge changes, as the properties below speak of them\<close>

definition post_like_count :: "graph \<Rightarrow> pid \<Rightarrow> int option" where
  "post_like_count g p = (case posts g p of None \<Rightarrow> None | Some post \<Rightarrow> like_count post)"

definition user_following_count :: "graph \<Rightarrow> uid \<Rightarrow> int option" where
  "user_following_count g u =
     (case users g u of None \<Rightarrow> None | Some n \<Rightarrow> following_count n)"

definition user_follower_count :: "graph \<Rightarrow> uid \<Rightarrow> int option" where
  "user_follower_count g u =
     (case users g u of None \<Rightarrow> None | Some n \<Rightarrow> follower_count n)"

text \<open>A counter went up by one (an absent counter counts as 0).\<close>

definition incremented :: "int option \<Rightarrow> int option \<Rightarrow> bool" where
  "incremented c c' = (c' = Some (coalesce c 0 + 1))"

definition positive_action :: "InteractionType \<Rightarrow> bool" where
  "positive_action a = (a = SWIPE_RIGHT \<or> a = SUPER_LIKE)"

definition has_positive_action :: "graph \<Rightarrow> uid \<Rightarrow> uid \<Rightarrow> bool" where
  "has_positive_action g a b =
     (dating_actions g (a, b, SWIPE_RIGHT) \<noteq> None \<or> dating_actions g (a, b, SUPER_LIKE) \<noteq> None)"

definition DatingProfile_invariant :: "int \<Rightarrow> DatingProfile \<Rightarrow> bool" where
  "DatingProfile_invariant today p =
     (18 \<le> age_years today (p_birth_date p) \<and> age_years today (p_birth_date p) \<le> 100
      \<and> length (p_photos p) \<le> 5
      \<and> p_gender_preference p \<noteq> []
      \<and> p_min_age_preference p \<le> p_max_age_preference p)"

section \<open>Example graphs\<close>

definition user0 :: user_node where
  "user0 = \<lparr>is_private = Some False, bio = Some ''hi'',
            profile_picture_s3_key = Some ''pictures/1'', follower_count = Some 0,
            following_count = Some 0, latitude = None, longitude = None\<rparr>"

definition graph0 :: graph where
  "graph0 = \<lparr>users = [1 \<mapsto> user0, 2 \<mapsto> user0], posts = [10 \<mapsto> \<lparr>like_count = Some 0\<rparr>],
             follows = Map.empty, requests = Map.empty, blocks = Map.empty,
             liked = Map.empty, dating_actions = Map.empty, dating_matches = Map.empty,
             profile_views = Map.empty\<rparr>"

definition graph_private :: graph where
  "graph_private = graph0\<lparr>users := [1 \<mapsto> user0, 2 \<mapsto> user0\<lparr>is_private := Some True\<rparr>]\<rparr>"

text \<open>User 1 follows user 2 and has liked post 10; the counters agree with the edges.\<close>

definition graph1 :: graph where
  "graph1 = graph0\<lparr>
     users := [1 \<mapsto> user0\<lparr>following_count := Some 1\<rparr>,
               2 \<mapsto> user0\<lparr>follower_count := Some 1\<rparr>],
     posts := [10 \<mapsto> \<lparr>like_count = Some 1\<rparr>],
     follows := [(1, 2) \<mapsto> \<lparr>f_created_at = Neo 3, f_request_accepted_at = None\<rparr>],
     liked := [(1, 10) \<mapsto> Neo 3]\<rparr>"

definition graph_blocked :: graph where
  "graph_blocked = graph0\<lparr>blocks := [(1, 2) \<mapsto> 4]\<rparr>"

text \<open>Both users have a location, and user 2 has swiped right on user 1.\<close>

definition user_at :: user_node where
  "user_at = user0\<lparr>latitude := Some 0, longitude := Some 0\<rparr>"

definition graph_dating :: graph where
  "graph_dating = graph0\<lparr>users := [1 \<mapsto> user_at, 2 \<mapsto> user_at],
                         dating_actions := [(2, 1, SWIPE_RIGHT) \<mapsto> 3]\<rparr>"

definition flat :: "real \<times> real \<Rightarrow> real \<times> real \<Rightarrow> real" where
  "flat x y = 0"

text \<open>User 1 has seen the dating profile of user 2, once, at time 5.\<close>

definition graph_seen :: graph where
  "graph_seen = graph0\<lparr>profile_views :=
     [(1, 2) \<mapsto> \<lparr>v_view_count = 1, v_created_at = 5, v_updated_at = 5\<rparr>]\<rparr>"

text \<open>User 1 and user 2 are matched.\<close>

definition graph_matched :: graph where
  "graph_matched = graph0\<lparr>dating_matches :=
     [(1, 2) \<mapsto> \<lparr>m_match_id = 99, m_created_at = 8, m_updated_at = 8,
                  m_compatibility_score = 0\<rparr>]\<rparr>"

text \<open>
  A filter with the defaults of \<^verbatim>\<open>DatingFilter\<close> and a preference for women, a day
  number for today, and the row of the dating profile of user 2 as the query returns it:
  a woman born 10000 days before (aged 27), with score 0.9.
\<close>

definition filter0 :: DatingFilter where
  "filter0 = \<lparr>df_max_distance_miles = 50, df_min_age = 18, df_max_age = 100,
              df_gender_preference = Some [FEMALE], df_exclude_seen = True,
              df_exclude_matched = True, df_min_compatibility = 0.0, df_limit = 50,
              df_offset = 0\<rparr>"

definition today0 :: int where
  "today0 = 20000"

definition row2 :: profile_row where
  "row2 = \<lparr>pr_user_id = 2, pr_compatibility_score = 0.9, pr_age = 27, pr_bio = ''hello'',
           pr_birth_date = Neo 10000, pr_gender = ''female'', pr_sexuality = ''straight'',
           pr_photos = [], pr_max_distance_miles = Some 50, pr_min_age_preference = Some 18,
           pr_max_age_preference = Some 100, pr_gender_preference = [''male''],
           pr_is_visible = Some True, pr_created_at = 1, pr_updated_at = 1\<rparr>"

definition any_url :: "string \<Rightarrow> bool" where
  "any_url s = True"

definition args2 :: DatingProfile_args where
  "args2 = \<lparr>a_user_id = 2, a_bio = ''hello'', a_birth_date = 10000, a_gender = FEMALE,
            a_sexuality = STRAIGHT, a_photos = [], a_max_distance_miles = None,
            a_min_age_preference = Some 21, a_max_age_preference = Some 40,
            a_gender_preference = [MALE], a_is_visible = None, a_created_at = 1,
            a_updated_at = 1\<rparr>"

text \<open>
  Two candidates that differ only in the time stamps of the one interaction between the
  users: at time 1000 and at time 1.
\<close>

definition interaction_at :: "timestamp \<Rightarrow> interaction" where
  "interaction_at t = \<lparr>i_completion_rate = 0.5, i_engagement_signals = [''like''],
                       i_unregretted = True, i_created_at = t, i_updated_at = t\<rparr>"

definition candidate_at :: "timestamp \<Rightarrow> candidate" where
  "candidate_at t = \<lparr>c_user = user_at, c_target = user_at, c_embedding_sim = Some 0.5,
                     c_node_sim = None, c_interactions = [interaction_at t]\<rparr>"

section \<open>Properties\<close>

subsection \<open>Self-directed actions\<close>

text \<open>
  Claim C4. For every user id \<open>u\<close>, \<open>block g u u\<close>, \<open>follow_user g u u\<close> and
  \<open>record_dating_action g u u action\<close> raise \<open>BlockError\<close>, \<open>FollowCreationError\<close> and
  \<open>ActionRecordingError\<close> respectively, whatever the action, and the graph they return
  is the graph they were given: the test comes before any transaction is opened.
\<close>

theorem self_actions_rejected:
  "block g u u t = (Inl (BlockError ''Users cannot block themselves''), g)
   \<and> follow_user g u u t = (Inl (FollowCreationError ''Users cannot follow themselves''), g)
   \<and> record_dating_action pd g u u a mid t
       = (Inl (ActionRecordingError ''Cannot perform dating action on yourself''), g)"
  by (simp add: block_def follow_user_def record_dating_action_def)

lemmas graph_simps = graph0_def graph1_def user0_def graph_private_def graph_blocked_def
  graph_dating_def user_at_def graph_seen_def graph_matched_def

subsection \<open>Unblocking\<close>

text \<open>
  The \<^verbatim>\<open>RETURN\<close> of the query of \<open>remove_block_relationship\<close> has no alias, unlike the
  one of the blocking query, so the look-up of the column \<open>result\<close> raises \<open>KeyError\<close>
  on the one row the query always returns. \<open>KeyError\<close> is no \<open>ValueError\<close>: the handler
  of \<open>unblock\<close> lets it through, and the transaction is rolled back.
\<close>

lemma remove_block_relationship_KeyError:
  "remove_block_relationship tx a b = Inl (KeyError ''result'')"
  by (simp add: remove_block_relationship_def remove_block_query_def Let_def record_get_def
      remove_block_column_def)

lemma unblock_never_succeeds:
  "a \<noteq> b \<Longrightarrow> unblock g a b = (Inl (KeyError ''result''), g)"
  by (simp add: unblock_def execute_write_def remove_block_relationship_KeyError
      unblock_handler_def)

text \<open>
  Claim C9, evaluated where it fails. Users 1 and 2 of \<open>graph0\<close> are distinct and there
  is no \<open>BLOCKS\<close> edge from 1 to 2: the claim has \<open>unblock\<close> raise \<open>BlockError\<close>, the
  documentation of \<open>unblock\<close> has it raise \<open>BlockNotFoundError\<close>, and it raises
  \<open>KeyError\<close>. It does the same on \<open>graph_blocked\<close>, where the edge exists and stays.
\<close>

theorem unblock_raises_KeyError:
  "unblock graph0 1 2 = (Inl (KeyError ''result''), graph0)
   \<and> blocks graph0 (1, 2) = None
   \<and> unblock graph_blocked 1 2 = (Inl (KeyError ''result''), graph_blocked)
   \<and> blocks graph_blocked (1, 2) \<noteq> None"
  by (simp add: unblock_never_succeeds) (simp add: graph_simps)

subsection \<open>Blocking\<close>

text \<open>
  Inside the transaction, the query of \<open>create_block_relationship\<close> returns one row
  for two distinct existing users, merges the \<open>BLOCKS\<close> edge, deletes the follow edges
  of both directions, and sets the counters of each deleted edge to
  \<open>coalesce c 1 - 1\<close>, leaving the others as they are.
\<close>

lemma create_block_query_effect:
  assumes "a \<noteq> b" and "users g a = Some ua" and "users g b = Some ub"
  shows "\<exists>row. fst (create_block_query g a b t) = [row]"
    and "blocks (snd (create_block_query g a b t)) (a, b) \<noteq> None"
    and "follows (snd (create_block_query g a b t)) (a, b) = None"
    and "follows (snd (create_block_query g a b t)) (b, a) = None"
    and "user_following_count (snd (create_block_query g a b t)) a
           = (if follows g (a, b) \<noteq> None then Some (coalesce (following_count ua) 1 - 1)
              else following_count ua)"
    and "user_follower_count (snd (create_block_query g a b t)) b
           = (if follows g (a, b) \<noteq> None then Some (coalesce (follower_count ub) 1 - 1)
              else follower_count ub)"
    and "user_following_count (snd (create_block_query g a b t)) b
           = (if follows g (b, a) \<noteq> None then Some (coalesce (following_count ub) 1 - 1)
              else following_count ub)"
    and "user_follower_count (snd (create_block_query g a b t)) a
           = (if follows g (b, a) \<noteq> None then Some (coalesce (follower_count ua) 1 - 1)
              else follower_count ua)"
  using assms
  by (auto simp: create_block_query_def Let_def user_following_count_def
      user_follower_count_def split: option.splits)

text \<open>
  The row of that query has the entry \<open>blocked_user\<close>, and \<open>CreateBlockRecord\<close> requires
  \<open>blocked_user_id\<close>: the record cannot be built, the transaction function raises, and the
  transaction is rolled back.
\<close>

lemma create_block_relationship_fails:
  "\<exists>e. create_block_relationship tx a b t = Inl e"
  by (auto simp: create_block_relationship_def create_block_query_def Let_def record_get_def
      CreateBlockRecord_new_def split: option.splits)

lemma block_never_commits: "\<exists>m. block g a b t = (Inl (BlockError m), g)"
  using create_block_relationship_fails[of g a b t]
  by (auto simp: block_def execute_write_def)

text \<open>
  Claim C2, evaluated on \<open>graph1\<close>, where user 1 follows user 2: \<open>block\<close> raises
  \<open>BlockError\<close> and returns the graph it was given, with the follow edge, without a
  \<open>BLOCKS\<close> edge, and with the counters untouched.
\<close>

theorem block_rolls_back_on_graph1:
  "block graph1 1 2 7
     = (Inl (BlockError ''Failed to block user: 1 validation error for CreateBlockRecord''),
        graph1)"
  by (simp add: block_def execute_write_def create_block_relationship_def
      create_block_query_def record_get_def CreateBlockRecord_new_def Let_def graph_simps)

subsection \<open>Likes and counters\<close>

text \<open>
  Inside the transaction, the query of \<open>create_post_like\<close> creates the \<open>LIKED\<close> edge
  and increments the post's \<open>like_count\<close> when the post was not liked, and changes
  nothing when it was.
\<close>

lemma Like_new_neo:
  "Like_new [(''user_id'', VUid u), (''content_id'', VUid c), (''content_type'', VStr s),
             (''created_at'', time_val (Neo t))]
     = Inl (ValidationError ''validation errors for Like'')"
  by (simp add: Like_new_def time_val_def)

lemma create_post_like_query_effect:
  assumes "users g u = Some x" and "posts g p = Some post"
  shows "liked g (u, p) = None \<Longrightarrow>
           liked (snd (create_post_like_query g p u ct t)) (u, p) = Some (Neo t)
           \<and> incremented (post_like_count g p)
                 (post_like_count (snd (create_post_like_query g p u ct t)) p)"
    and "liked g (u, p) \<noteq> None \<Longrightarrow> snd (create_post_like_query g p u ct t) = g"
  using assms
  by (auto simp: create_post_like_query_def incremented_def post_like_count_def)

text \<open>
  The row returns the edge's \<open>created_at\<close>, which the query has just written from a
  \<^verbatim>\<open>datetime\<close> parameter: it comes back as a \<^verbatim>\<open>neo4j.time.DateTime\<close>, \<open>Like\<close> rejects
  it, and the transaction is rolled back. \<open>like_post\<close> never changes the graph.
\<close>

lemma like_post_never_commits:
  "snd (like_post g u p ct t) = g"
  "liked g (u, p) = None \<Longrightarrow> \<exists>e. fst (like_post g u p ct t) = Inl e"
  by (auto simp: like_post_def execute_write_def create_post_like_def
      create_post_like_query_def like_check_query_def record_get_def Like_new_neo
      split: option.splits sum.splits)


text \<open>
  The other two operations of that claim build no record and do what it says:
  \<open>unlike_post\<close> deletes the edge and sets the counter to itself minus one,
  \<open>unfollow_user\<close> deletes the edge and sets the follower's \<open>following_count\<close> and the
  followee's \<open>follower_count\<close> to themselves minus one, in one transaction; without the
  edge they raise and leave the graph as it is. (\<open>dec\<close> of an absent counter is absent.)
\<close>

lemma unlike_post_effect:
  assumes "users g u = Some x" and "posts g p = Some post" and "liked g (u, p) = Some r"
  shows "fst (unlike_post g u p) = Inr ()"
    and "liked (snd (unlike_post g u p)) (u, p) = None"
    and "post_like_count (snd (unlike_post g u p)) p = dec (like_count post)"
  using assms
  by (auto simp: unlike_post_def execute_write_def remove_post_like_def
      remove_post_like_query_def post_like_count_def)

lemma unlike_post_without_like:
  "liked g (u, p) = None \<Longrightarrow> snd (unlike_post g u p) = g"
  by (auto simp: unlike_post_def execute_write_def remove_post_like_def
      remove_post_like_query_def unlike_check_query_def record_get_def
      split: sum.splits option.splits)

lemma unfollow_user_effect:
  assumes "a \<noteq> b" and "users g a = Some x" and "users g b = Some y"
    and "follows g (a, b) = Some r"
  shows "fst (unfollow_user g a b) = Inr ()"
    and "follows (snd (unfollow_user g a b)) (a, b) = None"
    and "user_following_count (snd (unfollow_user g a b)) a = dec (following_count x)"
    and "user_follower_count (snd (unfollow_user g a b)) b = dec (follower_count y)"
  using assms
  by (auto simp: unfollow_user_def execute_write_def remove_follow_def Let_def
      user_following_count_def user_follower_count_def)

lemma unfollow_user_without_follow:
  "follows g (a, b) = None \<Longrightarrow>
     unfollow_user g a b = (Inl (FollowNotFoundError ''Follow relationship not found''), g)"
  by (auto simp: unfollow_user_def execute_write_def remove_follow_def split: option.splits)

subsection \<open>Following\<close>

text \<open>
  Inside the transaction, the query of \<open>create_follow_relationship\<close> branches on the
  target's \<open>is_private\<close> for two distinct existing users with no \<open>BLOCKS\<close> edge in
  either direction and neither a \<open>FOLLOWS\<close> nor a \<open>REQUESTED_TO_FOLLOW\<close> edge from the
  first to the second: when it is true, a request edge with status \<open>PENDING\<close> is created
  and no user node and no follow edge changes; when it is false or absent, the \<open>FOLLOWS\<close>
  edge is created and the follower's \<open>following_count\<close> and the target's
  \<open>follower_count\<close> go up by one.
\<close>

lemma create_follow_query_effect:
  assumes "a \<noteq> b" and "users g a = Some ua" and "users g b = Some ub"
    and "blocks g (a, b) = None" and "blocks g (b, a) = None"
    and "follows g (a, b) = None" and "requests g (a, b) = None"
  shows "\<exists>row. fst (create_follow_query g a b t) = [row]"
    and "is_private ub = Some True \<Longrightarrow>
           requests (snd (create_follow_query g a b t)) (a, b)
             = Some \<lparr>r_created_at = Neo t, r_status = PENDING\<rparr>
           \<and> follows (snd (create_follow_query g a b t)) = follows g
           \<and> users (snd (create_follow_query g a b t)) = users g"
    and "is_private ub \<noteq> Some True \<Longrightarrow>
           follows (snd (create_follow_query g a b t)) (a, b)
             = Some \<lparr>f_created_at = Neo t, f_request_accepted_at = None\<rparr>
           \<and> requests (snd (create_follow_query g a b t)) = requests g
           \<and> incremented (user_following_count g a)
                (user_following_count (snd (create_follow_query g a b t)) a)
           \<and> incremented (user_follower_count g b)
                (user_follower_count (snd (create_follow_query g a b t)) b)"
  using assms
  by (auto simp: create_follow_query_def Let_def incremented_def user_following_count_def
      user_follower_count_def)

text \<open>
  The row returns the relationship the query has just created, with a \<open>created_at\<close>
  written from a \<^verbatim>\<open>datetime\<close> parameter: neither relationship model of
  \<open>CreateFollowRecord\<close> takes it, the transaction function raises, and the transaction
  is rolled back. \<open>follow_user\<close> never succeeds.
\<close>

lemma relationship_new_neo:
  "relationship_new (VFollows \<lparr>f_created_at = Neo t, f_request_accepted_at = x\<rparr>) = None"
  "relationship_new (VRequest \<lparr>r_created_at = Neo t, r_status = st\<rparr>) = None"
  by (simp_all add: relationship_new_def FollowRelationship_new_def
      FollowRequestRelationship_new_def parse_temporal_def)

lemma create_follow_relationship_fails:
  "\<exists>m. create_follow_relationship tx a b t = Inl m"
  by (auto simp: create_follow_relationship_def create_follow_query_def Let_def record_get_def
      CreateFollowRecord_new_def relationship_new_neo follow_check_query_def
      split: option.splits)

lemma follow_user_never_commits:
  "\<exists>m. follow_user g a b t = (Inl (FollowCreationError m), g)"
  using create_follow_relationship_fails[of g a b t]
  by (auto simp: follow_user_def execute_write_def)

text \<open>
  Claim C8, evaluated where it fails. Users 1 and 2 are distinct, not blocked, with no
  follow or request between them; user 2 is public in \<open>graph0\<close> and private in
  \<open>graph_private\<close>. The claim has \<open>follow_user\<close> create a \<open>FOLLOWS\<close> edge and increment
  two counters in the first graph and create a pending request in the second. In both it
  raises \<open>FollowCreationError\<close> and returns the graph it was given.
\<close>

theorem follow_user_rolls_back:
  "follow_user graph0 1 2 5
     = (Inl (FollowCreationError
               ''Failed to create follow: validation errors for CreateFollowRecord''),
        graph0)
   \<and> follow_user graph_private 1 2 5
     = (Inl (FollowCreationError
               ''Failed to create follow: validation errors for CreateFollowRecord''),
        graph_private)"
  by (simp add: follow_user_def execute_write_def create_follow_relationship_def
      create_follow_query_def record_get_def CreateFollowRecord_new_def relationship_new_neo
      Let_def graph_simps)

subsection \<open>Dating matches\<close>

lemma except_verify:
  "record_dating_action_except (ActionRecordingError ''Failed to verify users'')
     = ActionRecordingError ''Failed to record action: Failed to verify users''"
  by (simp add: record_dating_action_except_def lower_def lower_char_def)

lemma except_blocked:
  "record_dating_action_except (ActionRecordingError ''Cannot interact with blocked user'')
     = ActionRecordingError ''Failed to record action: Cannot interact with blocked user''"
  by (simp add: record_dating_action_except_def lower_def lower_char_def)

lemma except_validation:
  "record_dating_action_except (ValidationError ''1 validation error for DatingMatch'')
     = MatchCreationError ''Failed to create match: 1 validation error for DatingMatch''"
  by (simp add: record_dating_action_except_def lower_def lower_char_def)

lemma dating_action_query_no_row:
  assumes "\<not> (positive_action a \<and> has_positive_action g t u)" and "u \<noteq> t"
    and "users g u = Some x" and "users g t = Some y"
  shows "dating_action_query pd g u t a mid now
           = ([], g\<lparr>dating_actions := (dating_actions g)((u, t, a) \<mapsto> now)\<rparr>)"
  using assms
  by (auto simp: dating_action_query_def Let_def positive_action_def has_positive_action_def)

lemma dating_action_query_matches:
  "dating_matches (snd (dating_action_query pd g u t a mid now)) \<noteq> dating_matches g
   \<Longrightarrow> u \<noteq> t \<Longrightarrow> positive_action a \<and> has_positive_action g t u"
  by (auto simp: dating_action_query_def Let_def positive_action_def has_positive_action_def
      split: option.splits if_splits)

lemma dating_action_query_none:
  "u \<noteq> t \<Longrightarrow> single (fst (dating_action_query pd g u t a mid now)) = None
   \<Longrightarrow> dating_matches (snd (dating_action_query pd g u t a mid now)) = dating_matches g"
  by (cases "users g u"; cases "users g t")
     (auto simp: dating_action_query_def Let_def split: if_splits)

lemma record_dating_action_tx_cases:
  assumes "u \<noteq> t"
  shows "record_dating_action_tx pd g u t a mid now =
     (case (users g u, users g t) of
        (Some x, Some y) \<Rightarrow>
          if blocks g (u, t) \<noteq> None \<or> blocks g (t, u) \<noteq> None
          then Inl (ActionRecordingError
                      ''Failed to record action: Cannot interact with blocked user'')
          else (case single (fst (dating_action_query pd g u t a mid now)) of
                  None \<Rightarrow> Inr (None, snd (dating_action_query pd g u t a mid now))
                | Some record \<Rightarrow>
                    (case record_get record ''match'' of
                       Inl e \<Rightarrow> Inl (record_dating_action_except e)
                     | Inr kw \<Rightarrow>
                         (case DatingMatch_new kw of
                            Inl e \<Rightarrow> Inl (record_dating_action_except e)
                          | Inr m \<Rightarrow>
                              Inr (Some m, snd (dating_action_query pd g u t a mid now)))))
      | _ \<Rightarrow> Inl (ActionRecordingError ''Failed to record action: Failed to verify users''))"
  by (auto simp: record_dating_action_tx_def record_dating_action_try_def
      dating_check_query_def record_get_def except_verify except_blocked
      split: option.splits sum.splits prod.splits)

text \<open>
  Claim C1, as stated, on \<open>graph_blocked\<close>, where user 1 has blocked user 2 and user 2
  has no action edge towards user 1: this is one of the "other cases", and the claim has
  \<open>record_dating_action\<close> return \<open>None\<close>. It raises \<open>ActionRecordingError\<close>.
\<close>

theorem match_or_none_counterexample:
  "record_dating_action flat graph_blocked 1 2 SWIPE_RIGHT 99 8
     = (Inl (ActionRecordingError
               ''Failed to record action: Cannot interact with blocked user''),
        graph_blocked)"
  by (simp add: record_dating_action_def execute_write_def record_dating_action_tx_def
      record_dating_action_try_def dating_check_query_def record_get_def except_blocked
      graph_simps)

text \<open>
  Claim C1, amended. When \<open>record_dating_action\<close> changes the \<open>DATING_MATCH\<close> edges,
  the action recorded is \<open>SWIPE_RIGHT\<close> or \<open>SUPER_LIKE\<close>, the target already had such
  an action edge towards the acting user, and the match is returned. In every other case
  \<open>record_dating_action\<close> returns \<open>None\<close> or raises \<open>ActionRecordingError\<close>, and the
  \<open>DATING_MATCH\<close> edges are as they were.
\<close>

theorem match_only_when_mutual:
  "(dating_matches (snd (record_dating_action pd g u t a mid now)) \<noteq> dating_matches g
      \<longrightarrow> positive_action a \<and> has_positive_action g t u
          \<and> (\<exists>m. fst (record_dating_action pd g u t a mid now) = Inr (Some m)))
   \<and> (\<not> (positive_action a \<and> has_positive_action g t u)
      \<longrightarrow> (fst (record_dating_action pd g u t a mid now) = Inr None
           \<or> (\<exists>msg. fst (record_dating_action pd g u t a mid now)
                      = Inl (ActionRecordingError msg)))
          \<and> dating_matches (snd (record_dating_action pd g u t a mid now))
              = dating_matches g)"
proof (cases "u = t \<or> a \<notin> {SWIPE_RIGHT, SWIPE_LEFT, SUPER_LIKE}")
  case True
  then show ?thesis by (auto simp: record_dating_action_def)
next
  case False
  then have ut: "u \<noteq> t" by simp
  let ?q = "dating_action_query pd g u t a mid now"
  have R: "record_dating_action pd g u t a mid now
             = execute_write (\<lambda>tx. record_dating_action_tx pd tx u t a mid now) g"
    using False by (simp add: record_dating_action_def)
  show ?thesis
  proof (cases "\<exists>x y. users g u = Some x \<and> users g t = Some y
                  \<and> blocks g (u, t) = None \<and> blocks g (t, u) = None")
    case no: False
    then show ?thesis
      by (auto simp: R execute_write_def record_dating_action_tx_cases[OF ut]
          split: option.splits)
  next
    case True
    then obtain x y where ex: "users g u = Some x" "users g t = Some y"
      "blocks g (u, t) = None" "blocks g (t, u) = None" by blast
    show ?thesis
    proof (cases "positive_action a \<and> has_positive_action g t u")
      case pos: False
      then show ?thesis
        using dating_action_query_no_row[OF pos ut ex(1) ex(2), of pd mid now]
        by (simp add: R execute_write_def record_dating_action_tx_cases[OF ut] ex)
    next
      case pos: True
      have "dating_matches (snd (record_dating_action pd g u t a mid now)) \<noteq> dating_matches g
            \<Longrightarrow> \<exists>m. fst (record_dating_action pd g u t a mid now) = Inr (Some m)"
        by (auto simp: R execute_write_def record_dating_action_tx_cases[OF ut] ex
            dating_action_query_none[OF ut] split: option.splits sum.splits)
      with pos show ?thesis by blast
    qed
  qed
qed

theorem match_only_when_mutual_witness:
  "dating_matches (snd (record_dating_action flat graph_dating 1 2 SWIPE_RIGHT 99 8)) (1, 2)
     = Some \<lparr>m_match_id = 99, m_created_at = 8, m_updated_at = 8, m_compatibility_score = 0\<rparr>
   \<and> positive_action SWIPE_RIGHT \<and> has_positive_action graph_dating 2 1
   \<and> (\<exists>m. fst (record_dating_action flat graph_dating 1 2 SWIPE_RIGHT 99 8) = Inr (Some m))
   \<and> \<not> has_positive_action graph0 2 1
   \<and> fst (record_dating_action flat graph0 1 2 SWIPE_RIGHT 99 8) = Inr None
   \<and> dating_matches (snd (record_dating_action flat graph0 1 2 SWIPE_RIGHT 99 8))
       = dating_matches graph0"
proof -
  have m: "dating_matches (snd (record_dating_action flat graph_dating 1 2 SWIPE_RIGHT 99 8))
             (1, 2)
           = Some \<lparr>m_match_id = 99, m_created_at = 8, m_updated_at = 8,
                   m_compatibility_score = 0\<rparr>"
    by (simp add: record_dating_action_def execute_write_def record_dating_action_tx_def
        record_dating_action_try_def dating_check_query_def record_get_def
        dating_action_query_def DatingMatch_new_def opt_action_def opt_bool_def num_val_def
        point_distance_miles_def flat_def Let_def graph_simps)
  then have "dating_matches (snd (record_dating_action flat graph_dating 1 2 SWIPE_RIGHT 99 8))
               \<noteq> dating_matches graph_dating"
    by (auto simp: graph_simps dest: fun_cong[where x = "(1, 2)"])
  moreover have "\<not> has_positive_action graph0 2 1"
    by (simp add: has_positive_action_def graph_simps)
  moreover have "fst (record_dating_action flat graph0 1 2 SWIPE_RIGHT 99 8) = Inr None"
    by (simp add: record_dating_action_def execute_write_def record_dating_action_tx_def
        record_dating_action_try_def dating_check_query_def record_get_def
        dating_action_query_def Let_def graph_simps)
  ultimately show ?thesis
    using m match_only_when_mutual[of flat graph_dating 1 2 SWIPE_RIGHT 99 8]
      match_only_when_mutual[of flat graph0 1 2 SWIPE_RIGHT 99 8]
    by simp
qed

subsection \<open>Potential matches\<close>

text \<open>
  A row of the query carries the \<open>birth_date\<close> that \<^verbatim>\<open>date($birth_date)\<close> has stored,
  which comes back as a \<^verbatim>\<open>neo4j.time.Date\<close>; the loop converts the photos and the enums
  by hand and passes the birth date on as it is, and \<open>DatingProfile\<close> rejects it. So no
  row of the query converts, and when \<open>get_potential_matches\<close> returns, it returns the
  empty list.
\<close>

lemma profile_of_row_stored:
  assumes "row_from_query filters row"
  shows "\<exists>e. profile_of_row url_ok today row = Inl e"
proof -
  have "parse_temporal (pr_birth_date row) = None"
    using assms by (simp add: row_from_query_def parse_temporal_def split: temporal.splits)
  then show ?thesis
    by (simp add: profile_of_row_def split: option.splits sum.splits)
qed

lemma matches_loop_stored_rows:
  assumes "list_all (row_from_query filters') result"
    and "matches_loop url_ok today tx uid filters seen result [] = Inr ms"
  shows "ms = []"
  using assms
proof (induction result)
  case Nil
  then show ?case by simp
next
  case (Cons row result)
  from Cons.prems(1) have "row_from_query filters' row" by simp
  then obtain e where e: "profile_of_row url_ok today row = Inl e"
    using profile_of_row_stored by blast
  from Cons.prems(2) e
  have "matches_loop url_ok today tx uid filters seen result [] = Inr ms"
    by (simp split: if_splits)
  with Cons.IH Cons.prems(1) show ?case by simp
qed

lemma potential_matches_return_nothing:
  assumes "result_from_query filters result"
    and "get_potential_matches url_ok today tx uid filters result = Inr ps"
  shows "ps = []"
proof -
  from assms(2) obtain ms where
    ms: "matches_loop url_ok today tx uid filters {} result [] = Inr ms"
    and ps: "ps = drop (df_offset filters) ms"
    by (auto simp: get_potential_matches_def split: sum.splits)
  from assms(1) have "list_all (row_from_query filters) result"
    by (simp add: result_from_query_def)
  from matches_loop_stored_rows[OF this ms] ps show ?thesis by simp
qed

lemma filter0_row2: "DatingFilter_valid filter0 \<and> result_from_query filter0 [row2]"
  by (simp add: DatingFilter_valid_def result_from_query_def row_from_query_def filter0_def
      row2_def)

lemma row2_rejected:
  "profile_of_row any_url today0 row2
     = Inl (ValidationError ''validation errors for DatingProfile'')"
  by (simp add: profile_of_row_def row2_def any_url_def Gender_of_def Sexuality_of_def
      parse_temporal_def)

lemma row2_not_matched:
  "\<not> check_existing_match graph0 1 2 \<and> \<not> check_existing_match graph_seen 1 2"
  by (simp add: check_existing_match_def graph_simps)


lemma row2_fields:
  "pr_user_id row2 = 2 \<and> \<not> pr_compatibility_score row2 < df_min_compatibility filter0
   \<and> df_exclude_seen filter0 \<and> df_exclude_matched filter0"
  by (simp add: row2_def filter0_def)

text \<open>
  Claim C5, evaluated where it fails. User 1 asks for potential matches with a valid
  filter, and the query returns one row, the profile of user 2, which passes every test of
  the loop: the claim has \<open>get_potential_matches\<close> return that profile. It raises the
  validation error of \<open>DatingProfile\<close>.
\<close>

theorem potential_matches_raise_on_candidate:
  "DatingFilter_valid filter0
   \<and> result_from_query filter0 [row2]
   \<and> get_potential_matches any_url today0 graph0 1 filter0 [row2]
       = Inl (ValidationError ''validation errors for DatingProfile'')"
  using filter0_row2 row2_rejected row2_not_matched row2_fields
  by (simp add: get_potential_matches_def)

text \<open>
  The \<open>DATING_PROFILE_VIEW\<close> edges have no influence on what \<open>get_potential_matches\<close>
  does, whatever the filter says.
\<close>

lemma check_existing_match_views:
  "check_existing_match (tx\<lparr>profile_views := v\<rparr>) a b = check_existing_match tx a b"
  by (simp add: check_existing_match_def)

lemma matches_loop_ignores_views:
  "matches_loop url_ok today (tx\<lparr>profile_views := v\<rparr>) uid filters {} result acc
     = matches_loop url_ok today tx uid filters {} result acc"
proof (induction result arbitrary: acc)
  case Nil
  show ?case by simp
next
  case (Cons row result)
  show ?case
    by (simp only: matches_loop.simps check_existing_match_views Cons.IH)
qed

lemma potential_matches_ignore_views:
  "get_potential_matches url_ok today (tx\<lparr>profile_views := v\<rparr>) uid filters result
     = get_potential_matches url_ok today tx uid filters result"
  by (simp add: get_potential_matches_def matches_loop_ignores_views)


subsection \<open>The compatibility score\<close>

lemma distance_miles_Some: "\<exists>d. distance_miles pd u t = Some d"
proof (cases "latitude u \<noteq> None \<and> longitude u \<noteq> None
              \<and> latitude t \<noteq> None \<and> longitude t \<noteq> None")
  case True
  then obtain a b c d where "latitude u = Some a" "longitude u = Some b"
    "latitude t = Some c" "longitude t = Some d" by auto
  then have "distance_miles pd u t = Some (pd (a, b) (c, d) * 0.000621371)"
    by (simp add: distance_miles_def point_distance_miles_def)
  then show ?thesis ..
next
  case False
  then have "distance_miles pd u t = Some 10000"
    by (auto simp: distance_miles_def)
  then show ?thesis ..
qed

lemma interaction_score_timestamps:
  "interaction_score (map (\<lambda>i. i\<lparr>i_created_at := f i, i_updated_at := h i\<rparr>) is)
     = interaction_score is"
  by (simp add: interaction_score_def comp_def)

text \<open>
  Claim C7, as stated, on two candidates that differ only in how recent the interaction
  between the users is (time 1000 against time 1): a score with a recency-decay term
  would tell them apart, and both score 3/5.
\<close>

theorem recency_ignored_counterexample:
  "candidate_score flat 50 (candidate_at 1000) = candidate_score flat 50 (candidate_at 1)
   \<and> i_updated_at (interaction_at 1000) \<noteq> i_updated_at (interaction_at 1)
   \<and> candidate_score flat 50 (candidate_at 1000) = 3 / 5"
  by (simp add: candidate_score_def compatibility_score_def interaction_score_def
      distance_miles_def point_distance_miles_def candidate_at_def interaction_at_def
      user_at_def user0_def flat_def coalesce_def)

text \<open>
  Claim C7, amended. The compatibility score is a sum with fixed weights of four signals:
  0.3 times the embedding similarity, 0.2 times the node similarity (each 0 when null),
  0.2 times the interaction score and 0.3 times \<open>1 - distance / max_distance\<close>, the
  distance being always defined (10000 miles when a coordinate is missing). It does not
  depend on the time stamps of the interactions: there is no recency term. The weights
  add up to 1.
\<close>

theorem compatibility_four_signals:
  "(\<exists>d. distance_miles pd (c_user c) (c_target c) = Some d
        \<and> candidate_score pd m c
            = 0.3 * coalesce (c_embedding_sim c) 0 + 0.2 * coalesce (c_node_sim c) 0
              + 0.2 * interaction_score (c_interactions c) + 0.3 * (1 - d / m))
   \<and> candidate_score pd m
        (c\<lparr>c_interactions :=
             map (\<lambda>i. i\<lparr>i_created_at := f i, i_updated_at := h i\<rparr>) (c_interactions c)\<rparr>)
       = candidate_score pd m c
   \<and> (0.3::real) + 0.2 + 0.2 + 0.3 = 1"
proof -
  obtain d where d: "distance_miles pd (c_user c) (c_target c) = Some d"
    using distance_miles_Some by blast
  have "candidate_score pd m c
            = 0.3 * coalesce (c_embedding_sim c) 0 + 0.2 * coalesce (c_node_sim c) 0
              + 0.2 * interaction_score (c_interactions c) + 0.3 * (1 - d / m)"
    by (simp add: candidate_score_def compatibility_score_def d algebra_simps)
  moreover have "candidate_score pd m
        (c\<lparr>c_interactions :=
             map (\<lambda>i. i\<lparr>i_created_at := f i, i_updated_at := h i\<rparr>) (c_interactions c)\<rparr>)
       = candidate_score pd m c"
    by (simp add: candidate_score_def interaction_score_timestamps)
  ultimately show ?thesis using d by simp
qed

subsection \<open>Dating profiles\<close>

lemma DatingProfile_new_invariant:
  "DatingProfile_new today a = Inr p \<Longrightarrow> DatingProfile_invariant today p"
  by (auto simp: DatingProfile_new_def DatingProfile_invariant_def Let_def validate_age_def
      min_age_field_def max_age_field_def validate_age_range_def coalesce_def
      validate_gender_preference_def
      split: sum.splits option.splits if_splits)

lemma profile_of_row_invariant:
  "profile_of_row url_ok today row = Inr p \<Longrightarrow> DatingProfile_invariant today p"
  by (auto simp: profile_of_row_def dest: DatingProfile_new_invariant
      split: if_splits option.splits sum.splits)

lemma matches_loop_invariant:
  "matches_loop url_ok today tx uid filters seen result acc = Inr ms
   \<Longrightarrow> list_all (DatingProfile_invariant today) acc
   \<Longrightarrow> list_all (DatingProfile_invariant today) ms"
proof (induction result arbitrary: acc)
  case Nil
  then show ?case by simp
next
  case (Cons row result)
  then show ?case
    by (auto simp: Let_def dest: profile_of_row_invariant split: if_splits sum.splits)
qed

text \<open>
  Claim C10. Every profile that \<open>DatingProfile_new\<close> accepts satisfies the invariant,
  with the age counted in years of 365.25 days on the day of construction: the birth date
  is at least 18 and at most 100 years back, there are at most 5 photos, the gender
  preference is not empty, and the maximum age preference is at least the minimum. An
  input that violates one of these is rejected. The profiles that
  \<open>get_potential_matches\<close> returns are built by the constructor and satisfy the
  invariant as well.
\<close>

theorem DatingProfile_validated:
  "(DatingProfile_new today a = Inr p \<longrightarrow> DatingProfile_invariant today p)
   \<and> (age_years today (a_birth_date a) < 18 \<or> age_years today (a_birth_date a) > 100
       \<or> length (a_photos a) > 5 \<or> a_gender_preference a = []
       \<or> coalesce (a_max_age_preference a) 100 < coalesce (a_min_age_preference a) 18
      \<longrightarrow> (\<exists>e. DatingProfile_new today a = Inl e))
   \<and> (get_potential_matches url_ok today tx uid filters result = Inr ps
      \<longrightarrow> list_all (DatingProfile_invariant today) ps)"
proof (intro conjI impI)
  assume "DatingProfile_new today a = Inr p"
  then show "DatingProfile_invariant today p" by (rule DatingProfile_new_invariant)
next
  assume bad: "age_years today (a_birth_date a) < 18 \<or> age_years today (a_birth_date a) > 100
       \<or> length (a_photos a) > 5 \<or> a_gender_preference a = []
       \<or> coalesce (a_max_age_preference a) 100 < coalesce (a_min_age_preference a) 18"
  show "\<exists>e. DatingProfile_new today a = Inl e"
  proof (cases "DatingProfile_new today a")
    case (Inl e)
    then show ?thesis by blast
  next
    case (Inr q)
    then have False using bad
      by (auto simp: DatingProfile_new_def Let_def validate_age_def
          min_age_field_def max_age_field_def validate_age_range_def coalesce_def
          validate_gender_preference_def
          split: sum.splits option.splits if_splits)
    then show ?thesis ..
  qed
next
  assume "get_potential_matches url_ok today tx uid filters result = Inr ps"
  then obtain ms where ms: "matches_loop url_ok today tx uid filters {} result [] = Inr ms"
    and ps: "ps = drop (df_offset filters) ms"
    by (auto simp: get_potential_matches_def split: sum.splits)
  from matches_loop_invariant[OF ms] have "list_all (DatingProfile_invariant today) ms" by simp
  then show "list_all (DatingProfile_invariant today) ps"
    unfolding ps list_all_iff by (meson in_set_dropD)
qed

theorem DatingProfile_validated_witness:
  "(\<exists>p. DatingProfile_new today0 args2 = Inr p \<and> DatingProfile_invariant today0 p
         \<and> p_min_age_preference p = 21 \<and> p_max_age_preference p = 40)
   \<and> coalesce (a_max_age_preference (args2\<lparr>a_max_age_preference := Some 20\<rparr>)) 100
        < coalesce (a_min_age_preference (args2\<lparr>a_max_age_preference := Some 20\<rparr>)) 18
   \<and> (\<exists>e. DatingProfile_new today0 (args2\<lparr>a_max_age_preference := Some 20\<rparr>) = Inl e)"
proof -
  have ok: "DatingProfile_new today0 args2
              = Inr \<lparr>p_user_id = 2, p_bio = ''hello'', p_birth_date = 10000, p_gender = FEMALE,
                     p_sexuality = STRAIGHT, p_photos = [], p_max_distance_miles = 50,
                     p_min_age_preference = 21, p_max_age_preference = 40,
                     p_gender_preference = [MALE], p_is_visible = True, p_created_at = 1,
                     p_updated_at = 1\<rparr>"
    by (simp add: args2_def today0_def DatingProfile_new_def validate_age_def age_years_def
        max_distance_field_def min_age_field_def max_age_field_def validate_age_range_def
        validate_gender_preference_def coalesce_def Let_def)
  have bad: "coalesce (a_max_age_preference (args2\<lparr>a_max_age_preference := Some 20\<rparr>)) 100
        < coalesce (a_min_age_preference (args2\<lparr>a_max_age_preference := Some 20\<rparr>)) 18"
    by (simp add: args2_def coalesce_def)
  show ?thesis
    using ok bad
      DatingProfile_validated[of today0 args2 _ any_url graph_matched 1 filter0 "[row2]" "[]"]
      DatingProfile_validated[of today0 "args2\<lparr>a_max_age_preference := Some 20\<rparr>" _
        any_url graph_matched 1 filter0 "[row2]" "[]"]
    by simp
qed

end
